theory Spec2Isabelle
  imports Main
begin

section \<open>Strings of the platform\<close>

text \<open>
  The program is TypeScript. Its strings are modelled as \<^typ>\<open>string\<close>; the methods of
  \<open>String.prototype\<close> and \<open>Array.prototype\<close> that the source calls are written out
  here, each for the argument shapes the source uses.
\<close>

definition endsWith :: "string \<Rightarrow> string \<Rightarrow> bool" where
  \<comment> \<open>\<open>s.endsWith(suf)\<close>\<close>
  "endsWith s suf \<longleftrightarrow>
     length suf \<le> length s \<and> drop (length s - length suf) s = suf"

definition startsWith :: "string \<Rightarrow> string \<Rightarrow> bool" where
  \<comment> \<open>\<open>s.startsWith(pre)\<close>\<close>
  "startsWith s pre \<longleftrightarrow> take (length pre) s = pre"

definition slice_to :: "string \<Rightarrow> int \<Rightarrow> string" where
  \<comment> \<open>\<open>s.slice(0, e)\<close>: a negative end counts from the end of the string\<close>
  "slice_to s e = (if e < 0 then take (nat (int (length s) + e)) s else take (nat e) s)"

definition slice_from :: "string \<Rightarrow> nat \<Rightarrow> string" where
  \<comment> \<open>\<open>s.slice(b)\<close> for a non-negative start\<close>
  "slice_from s b = drop b s"

definition replace_all :: "char \<Rightarrow> char \<Rightarrow> string \<Rightarrow> string" where
  \<comment> \<open>\<open>s.replace(/c/g, d)\<close> for single characters\<close>
  "replace_all c d s = map (\<lambda>x. if x = c then d else x) s"

fun split :: "char \<Rightarrow> string \<Rightarrow> string list" where
  \<comment> \<open>\<open>s.split(c)\<close> for a one-character separator; \<open>"".split(c)\<close> is \<open>[""]\<close>\<close>
  "split c [] = [[]]"
| "split c (x # xs) =
     (if x = c then [] # split c xs
      else (case split c xs of
              [] \<Rightarrow> [[x]]
            | y # ys \<Rightarrow> (x # y) # ys))"

fun join :: "string \<Rightarrow> string list \<Rightarrow> string" where
  \<comment> \<open>\<open>xs.join(sep)\<close> on an array of strings\<close>
  "join sep [] = []"
| "join sep [x] = x"
| "join sep (x # y # ys) = x @ sep @ join sep (y # ys)"

definition is_space :: "char \<Rightarrow> bool" where
  \<comment> \<open>white space and line terminators of ECMAScript that fit in a \<^typ>\<open>char\<close>\<close>
  "is_space c \<longleftrightarrow>
     c \<in> {CHR 0x09, CHR 0x0A, CHR 0x0B, CHR 0x0C, CHR 0x0D, CHR 0x20, CHR 0xA0}"

definition trim :: "string \<Rightarrow> string" where
  \<comment> \<open>\<open>s.trim()\<close>\<close>
  "trim s = rev (dropWhile is_space (rev (dropWhile is_space s)))"

fun digit_char :: "nat \<Rightarrow> char" where
  "digit_char n = char_of (48 + n)"

fun show_nat_aux :: "nat \<Rightarrow> nat \<Rightarrow> string \<Rightarrow> string" where
  "show_nat_aux 0 n acc = acc"
| "show_nat_aux (Suc fuel) n acc =
     (if n < 10 then digit_char n # acc
      else show_nat_aux fuel (n div 10) (digit_char (n mod 10) # acc))"

definition show_nat :: "nat \<Rightarrow> string" where
  \<comment> \<open>the decimal numeral of a count or index, as a template literal prints it\<close>
  "show_nat n = show_nat_aux (Suc n) n []"

definition show_int :: "int \<Rightarrow> string" where
  "show_int i = (if i < 0 then CHR ''-'' # show_nat (nat (- i)) else show_nat (nat i))"


section \<open>Queue naming classifier\<close>

definition ERROR_SUFFIX :: string where
  "ERROR_SUFFIX = ''_error''"

definition SKIPPED_SUFFIX :: string where
  "SKIPPED_SUFFIX = ''_skipped''"

definition isErrorQueue :: "string \<Rightarrow> bool" where
  "isErrorQueue name = endsWith name ERROR_SUFFIX"

definition isSkippedQueue :: "string \<Rightarrow> bool" where
  "isSkippedQueue name = endsWith name SKIPPED_SUFFIX"

definition getSourceQueue :: "string \<Rightarrow> string" where
  "getSourceQueue errorQueueName =
     (if endsWith errorQueueName ERROR_SUFFIX
      then slice_to errorQueueName (- int (length ERROR_SUFFIX))
      else if endsWith errorQueueName SKIPPED_SUFFIX
      then slice_to errorQueueName (- int (length SKIPPED_SUFFIX))
      else errorQueueName)"


section \<open>JSON values and the platform\<close>

text \<open>
  A value produced by \<open>JSON.parse\<close>, or found in a header table decoded from a broker
  response. An object lists its own properties in enumeration order, each key once.
  The number type is a parameter: the source only tests a number for truthiness and
  prints it, and both observations are supplied by the platform below.
\<close>

datatype 'n json =
    JNull
  | JBool bool
  | JNumber 'n
  | JString string
  | JArray "'n json list"
  | JObject "(string \<times> 'n json) list"

text \<open>
  Whatever the source can throw or catch is an \<open>Error\<close> object with a message; the
  model keeps the message and whether it is a \<open>TypeError\<close>.
\<close>

datatype error = TypeError string | Error string

fun error_message :: "error \<Rightarrow> string" where
  \<comment> \<open>\<open>err instanceof Error ? err.message : String(err)\<close>; every thrown value here is an \<open>Error\<close>\<close>
  "error_message (TypeError m) = m"
| "error_message (Error m) = m"

definition and_then :: "error + 'a \<Rightarrow> ('a \<Rightarrow> error + 'b) \<Rightarrow> error + 'b" where
  \<comment> \<open>sequencing of two steps either of which may throw\<close>
  "and_then m f = (case m of Inl e \<Rightarrow> Inl e | Inr x \<Rightarrow> f x)"

text \<open>
  The built-in functions of the runtime that the source calls and that are not part of
  the repository: \<open>JSON.parse\<close> (\<open>None\<close> when it throws \<open>SyntaxError\<close>), the three
  observations of a number, and \<open>new URL(s).pathname\<close> (\<open>Inl\<close> when the constructor
  throws).
\<close>

record 'n platform =
  JSON_parse :: "string \<Rightarrow> 'n json option"
  number_is_zero :: "'n \<Rightarrow> bool"
  number_is_finite :: "'n \<Rightarrow> bool"
  number_to_string :: "'n \<Rightarrow> string"
  URL_pathname :: "string \<Rightarrow> error + string"

fun truthy :: "'n platform \<Rightarrow> 'n json \<Rightarrow> bool" where
  \<comment> \<open>\<open>ToBoolean\<close>\<close>
  "truthy P JNull = False"
| "truthy P (JBool b) = b"
| "truthy P (JNumber n) = (\<not> number_is_zero P n)"
| "truthy P (JString s) = (s \<noteq> [])"
| "truthy P (JArray xs) = True"
| "truthy P (JObject kvs) = True"

fun truthy_opt :: "'n platform \<Rightarrow> 'n json option \<Rightarrow> bool" where
  \<comment> \<open>\<open>ToBoolean\<close> of a value that may be \<open>undefined\<close> (\<open>None\<close>)\<close>
  "truthy_opt P None = False"
| "truthy_opt P (Some v) = truthy P v"

fun get :: "'n json \<Rightarrow> string \<Rightarrow> 'n json option" where
  \<comment> \<open>\<open>v?.k\<close> for the property names the source reads, none of which is built in:
      only an object has them\<close>
  "get (JObject kvs) k = map_of kvs k"
| "get v k = None"

fun opt_get :: "'n json option \<Rightarrow> string \<Rightarrow> 'n json option" where
  "opt_get None k = None"
| "opt_get (Some v) k = get v k"

fun nullish :: "'n json option \<Rightarrow> bool" where
  "nullish None = True"
| "nullish (Some JNull) = True"
| "nullish (Some v) = False"

definition coalesce :: "'n json option \<Rightarrow> 'n json option \<Rightarrow> 'n json option" where
  \<comment> \<open>\<open>a ?? b\<close>\<close>
  "coalesce a b = (if nullish a then b else a)"

fun toStr :: "'n platform \<Rightarrow> 'n json \<Rightarrow> error + string"
  and toStr_items :: "'n platform \<Rightarrow> 'n json list \<Rightarrow> error + string list" where
  \<comment> \<open>\<open>ToString\<close>, as a template literal applies it. An array joins its elements with a
      comma, \<open>null\<close> elements printing as nothing; an object prints through
      \<open>Object.prototype.toString\<close> unless an own property \<open>toString\<close> hides it, which a
      parsed value can only do with something that is not callable.\<close>
  "toStr P JNull = Inr ''null''"
| "toStr P (JBool b) = Inr (if b then ''true'' else ''false'')"
| "toStr P (JNumber n) = Inr (number_to_string P n)"
| "toStr P (JString s) = Inr s"
| "toStr P (JArray xs) = and_then (toStr_items P xs) (\<lambda>ss. Inr (join '','' ss))"
| "toStr P (JObject kvs) =
     (if map_of kvs ''toString'' \<noteq> None
      then Inl (TypeError ''Cannot convert object to primitive value'')
      else Inr ''[object Object]'')"
| "toStr_items P [] = Inr []"
| "toStr_items P (x # xs) =
     and_then (case x of JNull \<Rightarrow> Inr [] | _ \<Rightarrow> toStr P x) (\<lambda>s.
     and_then (toStr_items P xs) (\<lambda>ss. Inr (s # ss)))"

definition str_or :: "'n platform \<Rightarrow> 'n json option \<Rightarrow> string \<Rightarrow> error + string" where
  \<comment> \<open>\<open>`${v ?? d}`\<close>\<close>
  "str_or P v d = (case v of None \<Rightarrow> Inr d | Some JNull \<Rightarrow> Inr d | Some x \<Rightarrow> toStr P x)"

definition template :: "'n platform \<Rightarrow> 'n json option \<Rightarrow> error + string" where
  \<comment> \<open>\<open>`${v}`\<close> for a value that may be \<open>undefined\<close>\<close>
  "template P v = (case v of None \<Rightarrow> Inr ''undefined'' | Some x \<Rightarrow> toStr P x)"

definition hex_digit :: "nat \<Rightarrow> char" where
  "hex_digit n = (if n < 10 then char_of (48 + n) else char_of (87 + n))"

definition quote_char :: "char \<Rightarrow> string" where
  "quote_char c =
     (if c = CHR 0x22 then [CHR 0x5C, CHR 0x22]
      else if c = CHR 0x5C then [CHR 0x5C, CHR 0x5C]
      else if c = CHR 0x08 then [CHR 0x5C, CHR ''b'']
      else if c = CHR 0x0C then [CHR 0x5C, CHR ''f'']
      else if c = CHR 0x0A then [CHR 0x5C, CHR ''n'']
      else if c = CHR 0x0D then [CHR 0x5C, CHR ''r'']
      else if c = CHR 0x09 then [CHR 0x5C, CHR ''t'']
      else if of_char c < (32::nat)
      then [CHR 0x5C, CHR ''u'', CHR ''0'', CHR ''0'',
            hex_digit (of_char c div 16), hex_digit (of_char c mod 16)]
      else [c])"

definition quote :: "string \<Rightarrow> string" where
  \<comment> \<open>\<open>QuoteJSONString\<close>\<close>
  "quote s = CHR 0x22 # concat (map quote_char s) @ [CHR 0x22]"

fun stringify :: "'n platform \<Rightarrow> string \<Rightarrow> 'n json \<Rightarrow> string"
  and stringify_items :: "'n platform \<Rightarrow> string \<Rightarrow> 'n json list \<Rightarrow> string list"
  and stringify_members :: "'n platform \<Rightarrow> string \<Rightarrow> (string \<times> 'n json) list \<Rightarrow> string list"
  where
  \<comment> \<open>\<open>JSON.stringify(v, null, 2)\<close> on a parsed value; the second argument is the
      indentation reached so far\<close>
  "stringify P ind JNull = ''null''"
| "stringify P ind (JBool b) = (if b then ''true'' else ''false'')"
| "stringify P ind (JNumber n) =
     (if number_is_finite P n then number_to_string P n else ''null'')"
| "stringify P ind (JString s) = quote s"
| "stringify P ind (JArray xs) =
     (if xs = [] then ''[]''
      else ''['' @ [CHR 0x0A] @ ind @ ''  '' @
           join ('','' @ [CHR 0x0A] @ ind @ ''  '') (stringify_items P (ind @ ''  '') xs) @
           [CHR 0x0A] @ ind @ '']'')"
| "stringify P ind (JObject kvs) =
     (if kvs = [] then ''{}''
      else ''{'' @ [CHR 0x0A] @ ind @ ''  '' @
           join ('','' @ [CHR 0x0A] @ ind @ ''  '') (stringify_members P (ind @ ''  '') kvs) @
           [CHR 0x0A] @ ind @ ''}'')"
| "stringify_items P ind [] = []"
| "stringify_items P ind (x # xs) = stringify P ind x # stringify_items P ind xs"
| "stringify_members P ind [] = []"
| "stringify_members P ind ((k, v) # kvs) =
     (quote k @ '': '' @ stringify P ind v) # stringify_members P ind kvs"

definition JSON_stringify :: "'n platform \<Rightarrow> 'n json \<Rightarrow> string" where
  "JSON_stringify P v = stringify P [] v"


section \<open>Messages and faults\<close>

record 'n properties =
  headers :: "(string \<times> 'n json) list option"
  content_type :: "string option"
  message_id :: "string option"

record 'n PeekedMessage =
  payload :: string
  exchange :: string
  routing_key :: string
  properties :: "'n properties"

text \<open>
  \<open>MassTransitFault\<close>. A field holds what the source read, uncast: \<open>None\<close> is
  \<open>undefined\<close>.
\<close>

record 'n MassTransitFault =
  faultId :: "'n json option"
  faultedMessageId :: "'n json option"
  timestamp :: "'n json option"
  consumerType :: "'n json option"
  inputAddress :: "'n json option"
  messageType :: "'n json option"
  retryCount :: "'n json option"
  reason :: "'n json option"
  exceptions :: "'n json list option"
  message :: "'n json option"
  host :: "'n json option"

definition object_literal :: "(string \<times> 'n json option) list \<Rightarrow> 'n json" where
  \<comment> \<open>an object literal \<open>{k: v, ...}\<close> some of whose values may be \<open>undefined\<close>: reading
      such a property and reading a missing one give the same\<close>
  "object_literal kvs = JObject (List.map_filter (\<lambda>(k, v). map_option (Pair k) v) kvs)"


section \<open>Message-type names and the envelope parser\<close>

definition getMessageTypeName :: "string \<Rightarrow> string" where
  "getMessageTypeName urn =
     (if \<not> startsWith urn ''urn:message:'' then urn
      else replace_all CHR '':'' CHR ''.'' (slice_from urn (length ''urn:message:'')))"

definition parseEnvelope :: "'n platform \<Rightarrow> string \<Rightarrow> 'n json option" where
  "parseEnvelope P text =
     (case JSON_parse P text of
        None \<Rightarrow> None
      | Some parsed \<Rightarrow>
          if truthy P parsed \<and>
             (truthy_opt P (get parsed ''messageType'') \<or>
              truthy_opt P (get parsed ''messageId'') \<or>
              truthy_opt P (get parsed ''message''))
          then Some parsed
          else None)"


section \<open>Fault extraction\<close>

definition parseFaultFromHeaders ::
  "'n platform \<Rightarrow> (string \<times> 'n json) list \<Rightarrow> 'n MassTransitFault option" where
  \<comment> \<open>\<open>headers[k]\<close> is \<open>map_of hs k\<close>\<close>
  "parseFaultFromHeaders P hs =
     (let rsn = map_of hs ''MT-Reason'';
          exceptionType = map_of hs ''MT-Fault-ExceptionType'';
          faultMessage = map_of hs ''MT-Fault-Message''
      in if \<not> truthy_opt P rsn \<and> \<not> truthy_opt P exceptionType then None
         else Some \<lparr>
           faultId = None,
           faultedMessageId = None,
           timestamp = map_of hs ''MT-Fault-Timestamp'',
           consumerType = map_of hs ''MT-Fault-ConsumerType'',
           inputAddress = map_of hs ''MT-Fault-InputAddress'',
           messageType = map_of hs ''MT-Fault-MessageType'',
           retryCount = map_of hs ''MT-Fault-RetryCount'',
           reason = rsn,
           exceptions =
             (if truthy_opt P exceptionType
              then Some [object_literal
                     [(''exceptionType'', exceptionType),
                      (''message'', faultMessage),
                      (''stackTrace'', map_of hs ''MT-Fault-StackTrace'')]]
              else None),
           message = None,
           host = Some (object_literal
             [(''machineName'', map_of hs ''MT-Host-MachineName''),
              (''processName'', map_of hs ''MT-Host-ProcessName''),
              (''processId'', map_of hs ''MT-Host-ProcessId''),
              (''assembly'', map_of hs ''MT-Host-Assembly''),
              (''assemblyVersion'', map_of hs ''MT-Host-AssemblyVersion''),
              (''frameworkVersion'', map_of hs ''MT-Host-FrameworkVersion''),
              (''massTransitVersion'', map_of hs ''MT-Host-MassTransitVersion''),
              (''operatingSystemVersion'', map_of hs ''MT-Host-OperatingSystemVersion'')])
         \<rparr>)"

definition parseFault :: "'n platform \<Rightarrow> string \<Rightarrow> 'n MassTransitFault option" where
  \<comment> \<open>the whole body is under \<open>try\<close>: a \<open>SyntaxError\<close> of the parse and the \<open>TypeError\<close>
      of reading \<open>.message\<close> from \<open>null\<close> both end in \<open>null\<close>\<close>
  "parseFault P text =
     (case JSON_parse P text of
        None \<Rightarrow> None
      | Some JNull \<Rightarrow> None
      | Some envelope \<Rightarrow>
          (case get envelope ''message'' of
             None \<Rightarrow> None
           | Some msg \<Rightarrow>
               if \<not> truthy P msg then None
               else (case get msg ''exceptions'' of
                       Some (JArray (x # xs)) \<Rightarrow> Some \<lparr>
                         faultId = get msg ''faultId'',
                         faultedMessageId = get msg ''faultedMessageId'',
                         timestamp = coalesce (get envelope ''sentTime'') (get msg ''timestamp''),
                         consumerType = None,
                         inputAddress = None,
                         messageType = None,
                         retryCount = None,
                         reason = None,
                         exceptions = Some (x # xs),
                         message = get msg ''message'',
                         host = get envelope ''host''
                       \<rparr>
                     | _ \<Rightarrow> None)))"



section \<open>Fault formatter\<close>

text \<open>
  The repository holds two revisions of \<open>masstransit.ts\<close>. The functions here follow the
  one that reads the \<open>MT-Fault-*\<close> headers, which is the one the README and the
  specification describe; the other revision has the body branch, the envelope branch and
  the raw branch only, and keeps 5 lines of a stack trace where this one keeps 8.

  \<open>formatFaultMessage\<close> has four branches. Each is a definition of its own here, in
  the order of the source, and a \<open>TypeError\<close> thrown while a branch builds its lines
  ends the whole call: nothing in the function catches it.
\<close>

fun collect :: "(error + 'a list) list \<Rightarrow> error + 'a list" where
  \<comment> \<open>the steps of a branch, run in order; the first one to throw ends the run\<close>
  "collect [] = Inr []"
| "collect (m # ms) = and_then m (\<lambda>xs. and_then (collect ms) (\<lambda>ys. Inr (xs @ ys)))"

definition line :: "string \<Rightarrow> error + string \<Rightarrow> error + string list" where
  "line pre m = and_then m (\<lambda>s. Inr [pre @ s])"

definition lines_when :: "bool \<Rightarrow> error + string list \<Rightarrow> error + string list" where
  \<comment> \<open>\<open>if (c) lines.push(...)\<close>\<close>
  "lines_when c m = (if c then m else Inr [])"

fun type_names :: "'n json list \<Rightarrow> error + string list" where
  \<comment> \<open>\<open>xs.map(getMessageTypeName)\<close>: \<open>urn.startsWith\<close> exists on strings only\<close>
  "type_names [] = Inr []"
| "type_names (x # xs) =
     and_then (case x of
                 JString urn \<Rightarrow> Inr (getMessageTypeName urn)
               | _ \<Rightarrow> Inl (TypeError ''urn.startsWith is not a function'')) (\<lambda>n.
     and_then (type_names xs) (\<lambda>ns. Inr (n # ns)))"

definition messageTypes_of :: "'n platform \<Rightarrow> 'n json option \<Rightarrow> error + string list" where
  \<comment> \<open>\<open>envelope?.messageType ? envelope.messageType.map(getMessageTypeName) : []\<close>;
      \<open>.map\<close> exists on arrays only\<close>
  "messageTypes_of P envelope =
     (case opt_get envelope ''messageType'' of
        None \<Rightarrow> Inr []
      | Some v \<Rightarrow>
          if \<not> truthy P v then Inr []
          else (case v of
                  JArray xs \<Rightarrow> type_names xs
                | _ \<Rightarrow> Inl (TypeError ''envelope.messageType.map is not a function'')))"

definition hostInfo_of :: "'n platform \<Rightarrow> 'n json option \<Rightarrow> error + string" where
  "hostInfo_of P h =
     (if truthy_opt P h
      then and_then (str_or P (opt_get h ''machineName'') ''unknown'') (\<lambda>machine.
           and_then (str_or P (opt_get h ''processName'') ''unknown'') (\<lambda>process.
           and_then (str_or P (opt_get h ''processId'') ''?'') (\<lambda>pid.
           Inr (machine @ '' / '' @ process @ '' (PID '' @ pid @ '')''))))
      else Inr ''unknown'')"

definition first_exception :: "'n MassTransitFault \<Rightarrow> 'n json option" where
  \<comment> \<open>\<open>fault.exceptions?.[0]\<close>\<close>
  "first_exception f = (case exceptions f of Some (x # xs) \<Rightarrow> Some x | _ \<Rightarrow> None)"

definition stack_lines :: "nat \<Rightarrow> string \<Rightarrow> string list" where
  \<comment> \<open>\<open>st.split("\n").slice(0, limit).map((l) => `    ${l.trim()}`)\<close>\<close>
  "stack_lines limit st = map (\<lambda>l. ''    '' @ trim l) (take limit (split CHR 0x0A st))"

definition stack_trace_line :: "'n platform \<Rightarrow> nat \<Rightarrow> 'n json option \<Rightarrow> error + string list" where
  \<comment> \<open>\<open>if (ex?.stackTrace) ...\<close>; \<open>.split\<close> exists on strings only\<close>
  "stack_trace_line P limit ex =
     (case opt_get ex ''stackTrace'' of
        None \<Rightarrow> Inr []
      | Some v \<Rightarrow>
          if \<not> truthy P v then Inr []
          else (case v of
                  JString st \<Rightarrow>
                    Inr [''  Stack Trace:'' @ [CHR 0x0A] @ join [CHR 0x0A] (stack_lines limit st)]
                | _ \<Rightarrow> Inl (TypeError ''ex.stackTrace.split is not a function'')))"

definition truncated :: "string \<Rightarrow> string" where
  "truncated payloadStr =
     (if length payloadStr > 500
      then slice_to payloadStr 500 @ [CHR 0x0A] @ ''    ... (truncated)''
      else payloadStr)"

definition original_payload_line :: "'n platform \<Rightarrow> 'n json option \<Rightarrow> error + string list" where
  \<comment> \<open>\<open>if (v) { ... lines.push(`  Original Payload: ${truncated}`) }\<close>\<close>
  "original_payload_line P v =
     (case v of
        None \<Rightarrow> Inr []
      | Some body \<Rightarrow>
          if \<not> truthy P body then Inr []
          else Inr [''  Original Payload: '' @ truncated (JSON_stringify P body)])"

definition headerFaultReport ::
  "'n platform \<Rightarrow> 'n MassTransitFault \<Rightarrow> 'n json option \<Rightarrow> nat \<Rightarrow> error + string" where
  "headerFaultReport P headerFault envelope index =
     (let ex = first_exception headerFault in
      and_then
        (if nullish (messageType headerFault)
         then (if truthy_opt P (opt_get envelope ''messageType'')
               then and_then (messageTypes_of P envelope) (\<lambda>ns. Inr (JString (join '', '' ns)))
               else Inr (JString ''unknown''))
         else Inr (case messageType headerFault of Some v \<Rightarrow> v | None \<Rightarrow> JNull)) (\<lambda>mt.
      and_then (hostInfo_of P (host headerFault)) (\<lambda>hostInfo.
      and_then (collect
        [Inr [''Message '' @ show_nat (index + 1) @ '':''],
         line ''  Faulted: '' (str_or P (timestamp headerFault) ''unknown''),
         line ''  Reason: '' (str_or P (reason headerFault) ''fault''),
         line ''  Message Type: '' (toStr P mt),
         lines_when (truthy_opt P (consumerType headerFault))
           (line ''  Consumer: '' (template P (consumerType headerFault))),
         lines_when (truthy_opt P ex)
           (and_then (str_or P (opt_get ex ''exceptionType'') ''unknown'') (\<lambda>t.
            and_then (str_or P (opt_get ex ''message'') ''unknown'') (\<lambda>m.
            Inr [''  Exception: '' @ t @ '' - '' @ [CHR 0x22] @ m @ [CHR 0x22]]))),
         lines_when (retryCount headerFault \<noteq> None)
           (line ''  Retry Count: '' (template P (retryCount headerFault))),
         stack_trace_line P 8 ex,
         original_payload_line P (opt_get envelope ''message''),
         Inr [''  Source Host: '' @ hostInfo],
         lines_when (truthy_opt P (opt_get (host headerFault) ''assembly'') \<and>
                     truthy_opt P (opt_get (host headerFault) ''assemblyVersion''))
           (and_then (template P (opt_get (host headerFault) ''assembly'')) (\<lambda>a.
            and_then (template P (opt_get (host headerFault) ''assemblyVersion'')) (\<lambda>v.
            and_then (str_or P (opt_get (host headerFault) ''frameworkVersion'') ''?'') (\<lambda>fw.
            Inr [''  Assembly: '' @ a @ '' v'' @ v @ '' (.NET '' @ fw @ '')'']))))])
        (\<lambda>lines. Inr (join [CHR 0x0A] lines)))))"

definition type_names_or_unknown :: "string list \<Rightarrow> string" where
  \<comment> \<open>\<open>messageTypes.length > 0 ? messageTypes.join(", ") : "unknown"\<close>\<close>
  "type_names_or_unknown ns = (if length ns > 0 then join '', '' ns else ''unknown'')"

definition bodyFaultReport ::
  "'n platform \<Rightarrow> 'n MassTransitFault \<Rightarrow> 'n json option \<Rightarrow> nat \<Rightarrow> error + string" where
  "bodyFaultReport P bodyFault envelope index =
     (let ex = first_exception bodyFault in
      and_then (messageTypes_of P envelope) (\<lambda>messageTypes.
      and_then (hostInfo_of P (host bodyFault)) (\<lambda>hostInfo.
      and_then (collect
        [Inr [''Message '' @ show_nat (index + 1) @ '':''],
         line ''  Faulted: '' (str_or P (timestamp bodyFault) ''unknown''),
         line ''  Original MessageId: '' (str_or P (faultedMessageId bodyFault) ''unknown''),
         Inr [''  Message Type: '' @ type_names_or_unknown messageTypes],
         and_then (str_or P (opt_get ex ''exceptionType'') ''unknown'') (\<lambda>t.
         and_then (str_or P (opt_get ex ''message'') ''unknown'') (\<lambda>m.
         Inr [''  Exception: '' @ t @ '' - '' @ [CHR 0x22] @ m @ [CHR 0x22]])),
         stack_trace_line P 8 ex,
         original_payload_line P (message bodyFault),
         Inr [''  Source Host: '' @ hostInfo]])
        (\<lambda>lines. Inr (join [CHR 0x0A] lines)))))"

definition envelopeReport :: "'n platform \<Rightarrow> 'n json \<Rightarrow> nat \<Rightarrow> error + string" where
  "envelopeReport P envelope index =
     and_then (messageTypes_of P (Some envelope)) (\<lambda>messageTypes.
     and_then (collect
       [Inr [''Message '' @ show_nat (index + 1) @ '':''],
        line ''  MessageId: '' (str_or P (get envelope ''messageId'') ''unknown''),
        line ''  Sent: '' (str_or P (get envelope ''sentTime'') ''unknown''),
        Inr [''  Message Type: '' @ type_names_or_unknown messageTypes],
        Inr [''  Payload: '' @
             slice_to (JSON_stringify P
                         (case coalesce (get envelope ''message'') (Some (JObject [])) of
                            Some v \<Rightarrow> v | None \<Rightarrow> JObject [])) 500]])
       (\<lambda>lines. Inr (join [CHR 0x0A] lines)))"

definition rawReport :: "'n PeekedMessage \<Rightarrow> nat \<Rightarrow> string" where
  "rawReport msg index =
     join [CHR 0x0A]
       [''Message '' @ show_nat (index + 1) @ '':'',
        ''  Exchange: '' @ exchange msg,
        ''  Routing Key: '' @ routing_key msg,
        ''  Payload: '' @ slice_to (payload msg) 500]"

definition headers_of :: "'n PeekedMessage \<Rightarrow> (string \<times> 'n json) list" where
  \<comment> \<open>\<open>msg.properties.headers ?? {}\<close>\<close>
  "headers_of msg = (case headers (properties msg) of None \<Rightarrow> [] | Some h \<Rightarrow> h)"

definition formatFaultMessage :: "'n platform \<Rightarrow> 'n PeekedMessage \<Rightarrow> nat \<Rightarrow> error + string" where
  "formatFaultMessage P msg index =
     (let hs = headers_of msg;
          headerFault = parseFaultFromHeaders P hs;
          bodyFault = parseFault P (payload msg);
          envelope = parseEnvelope P (payload msg)
      in case headerFault of
           Some hf \<Rightarrow> headerFaultReport P hf envelope index
         | None \<Rightarrow>
             (case bodyFault of
                Some bf \<Rightarrow> bodyFaultReport P bf envelope index
              | None \<Rightarrow>
                  (case envelope of
                     Some env \<Rightarrow> envelopeReport P env index
                   | None \<Rightarrow> Inr (rawReport msg index))))"


section \<open>A platform to run the scenarios on\<close>

text \<open>
  An instance of the platform for the fragment the scenarios of the specification live
  in: JSON texts whose numbers are integers that a double holds exactly and whose
  strings stay within 8-bit characters, and URLs of the plain shape
  \<open>scheme://authority/path\<close>. It is used to evaluate the model at concrete messages; the
  general theorems hold for every platform.
\<close>

definition is_json_ws :: "char \<Rightarrow> bool" where
  "is_json_ws c \<longleftrightarrow> c \<in> {CHR 0x20, CHR 0x09, CHR 0x0A, CHR 0x0D}"

definition skip_ws :: "string \<Rightarrow> string" where
  "skip_ws s = dropWhile is_json_ws s"

definition is_digit :: "char \<Rightarrow> bool" where
  "is_digit c \<longleftrightarrow> (48::nat) \<le> of_char c \<and> of_char c \<le> (57::nat)"

definition digits_value :: "string \<Rightarrow> int" where
  "digits_value ds = foldl (\<lambda>acc c. 10 * acc + (of_char c - 48)) 0 ds"

definition hex_value :: "char \<Rightarrow> nat option" where
  "hex_value c =
     (let n = of_char c :: nat
      in if 48 \<le> n \<and> n \<le> 57 then Some (n - 48)
         else if 97 \<le> n \<and> n \<le> 102 then Some (n - 87)
         else if 65 \<le> n \<and> n \<le> 70 then Some (n - 55)
         else None)"

fun parse_string :: "string \<Rightarrow> (string \<times> string) option" where
  \<comment> \<open>the characters after an opening quote, up to the closing one\<close>
  "parse_string [] = None"
| "parse_string [c] = (if c = CHR 0x22 then Some ([], []) else None)"
| "parse_string (c # d # r) =
     (if c = CHR 0x22 then Some ([], d # r)
      else if c = CHR 0x5C then
        (if d = CHR ''u'' then
           (case map hex_value (take 4 r) of
              [Some a, Some b, Some x, Some y] \<Rightarrow>
                if a = 0 \<and> b = 0
                then map_option (\<lambda>(t, r'). (char_of (16 * x + y) # t, r'))
                       (parse_string (drop 4 r))
                else None
            | _ \<Rightarrow> None)
         else
           (case (if d = CHR 0x22 then Some (CHR 0x22)
                  else if d = CHR 0x5C then Some (CHR 0x5C)
                  else if d = CHR ''/'' then Some (CHR ''/'')
                  else if d = CHR ''b'' then Some (CHR 0x08)
                  else if d = CHR ''f'' then Some (CHR 0x0C)
                  else if d = CHR ''n'' then Some (CHR 0x0A)
                  else if d = CHR ''r'' then Some (CHR 0x0D)
                  else if d = CHR ''t'' then Some (CHR 0x09)
                  else None) of
              None \<Rightarrow> None
            | Some e \<Rightarrow> map_option (\<lambda>(t, r'). (e # t, r')) (parse_string r)))
      else if of_char c < (32::nat) then None
      else map_option (\<lambda>(t, r'). (c # t, r')) (parse_string (d # r)))"

definition parse_number :: "string \<Rightarrow> (int \<times> string) option" where
  \<comment> \<open>an integer literal of JSON; a fraction or an exponent is outside the fragment\<close>
  "parse_number s =
     (let neg = (take 1 s = ''-'');
          t = (if neg then drop 1 s else s);
          ds = takeWhile is_digit t;
          r = dropWhile is_digit t
      in if ds = [] \<or> (length ds > 1 \<and> hd ds = CHR ''0'') then None
         else if r \<noteq> [] \<and> hd r \<in> {CHR ''.'', CHR ''e'', CHR ''E''} then None
         else if digits_value ds > 9007199254740991 then None
         else Some (if neg then - digits_value ds else digits_value ds, r))"

definition is_index_key :: "string \<Rightarrow> bool" where
  \<comment> \<open>an array index written canonically: such keys enumerate first, in numeric order\<close>
  "is_index_key k \<longleftrightarrow>
     k \<noteq> [] \<and> list_all is_digit k \<and> (k = ''0'' \<or> hd k \<noteq> CHR ''0'') \<and>
     digits_value k < 4294967295"

definition define_property ::
  "string \<Rightarrow> 'n json \<Rightarrow> (string \<times> 'n json) list \<Rightarrow> (string \<times> 'n json) list" where
  \<comment> \<open>a repeated key keeps its place and takes the later value\<close>
  "define_property k v kvs =
     (if map_of kvs k = None then kvs @ [(k, v)]
      else map (\<lambda>(k', v'). if k' = k then (k', v) else (k', v')) kvs)"

definition own_properties :: "(string \<times> 'n json) list \<Rightarrow> (string \<times> 'n json) list" where
  "own_properties kvs =
     sort_key (\<lambda>(k, v). digits_value k) (filter (\<lambda>(k, v). is_index_key k) kvs) @
     filter (\<lambda>(k, v). \<not> is_index_key k) kvs"

fun parse_value :: "nat \<Rightarrow> string \<Rightarrow> (int json \<times> string) option"
  and parse_elements :: "nat \<Rightarrow> int json list \<Rightarrow> string \<Rightarrow> (int json \<times> string) option"
  and parse_members ::
    "nat \<Rightarrow> (string \<times> int json) list \<Rightarrow> string \<Rightarrow> (int json \<times> string) option"
  where
  \<comment> \<open>recursive descent; the first argument bounds the nesting and the number of
      elements, and the length of the text is enough\<close>
  "parse_value 0 s = None"
| "parse_value (Suc n) s =
     (let t = skip_ws s
      in if take 4 t = ''null'' then Some (JNull, drop 4 t)
         else if take 4 t = ''true'' then Some (JBool True, drop 4 t)
         else if take 5 t = ''false'' then Some (JBool False, drop 5 t)
         else if take 1 t = [CHR 0x22]
         then map_option (\<lambda>(x, r). (JString x, r)) (parse_string (drop 1 t))
         else if take 1 t = ''[''
         then (if take 1 (skip_ws (drop 1 t)) = '']''
               then Some (JArray [], drop 1 (skip_ws (drop 1 t)))
               else parse_elements n [] (drop 1 t))
         else if take 1 t = ''{''
         then (if take 1 (skip_ws (drop 1 t)) = ''}''
               then Some (JObject [], drop 1 (skip_ws (drop 1 t)))
               else parse_members n [] (drop 1 t))
         else map_option (\<lambda>(i, r). (JNumber i, r)) (parse_number t))"
| "parse_elements 0 acc s = None"
| "parse_elements (Suc n) acc s =
     (case parse_value n s of
        None \<Rightarrow> None
      | Some (v, r) \<Rightarrow>
          (let t = skip_ws r
           in if take 1 t = '','' then parse_elements n (acc @ [v]) (drop 1 t)
              else if take 1 t = '']'' then Some (JArray (acc @ [v]), drop 1 t)
              else None))"
| "parse_members 0 acc s = None"
| "parse_members (Suc n) acc s =
     (let t = skip_ws s
      in if take 1 t \<noteq> [CHR 0x22] then None
         else (case parse_string (drop 1 t) of
                 None \<Rightarrow> None
               | Some (k, r) \<Rightarrow>
                   if take 1 (skip_ws r) \<noteq> '':'' then None
                   else (case parse_value n (drop 1 (skip_ws r)) of
                           None \<Rightarrow> None
                         | Some (v, r') \<Rightarrow>
                             (let u = skip_ws r'
                              in if take 1 u = '',''
                                 then parse_members n (define_property k v acc) (drop 1 u)
                                 else if take 1 u = ''}''
                                 then Some (JObject (own_properties (define_property k v acc)),
                                            drop 1 u)
                                 else None))))"

definition parse_json :: "string \<Rightarrow> int json option" where
  "parse_json s =
     (case parse_value (Suc (length s)) s of
        None \<Rightarrow> None
      | Some (v, r) \<Rightarrow> if skip_ws r = [] then Some v else None)"

definition is_alpha :: "char \<Rightarrow> bool" where
  "is_alpha c \<longleftrightarrow>
     (let n = of_char c :: nat in (65 \<le> n \<and> n \<le> 90) \<or> (97 \<le> n \<and> n \<le> 122))"

definition is_scheme_char :: "char \<Rightarrow> bool" where
  "is_scheme_char c \<longleftrightarrow> is_alpha c \<or> is_digit c \<or> c \<in> {CHR ''+'', CHR ''-'', CHR ''.''}"

definition url_pathname :: "string \<Rightarrow> error + string" where
  \<comment> \<open>\<open>new URL(s).pathname\<close> for \<open>scheme://authority/path\<close>, the path taken as it stands;
      a text with no scheme is not a URL\<close>
  "url_pathname s =
     (let scheme = takeWhile is_scheme_char s;
          r = dropWhile is_scheme_char s
      in if scheme = [] \<or> \<not> is_alpha (hd scheme) \<or> take 1 r \<noteq> '':''
         then Inl (TypeError ''Invalid URL'')
         else if take 2 (drop 1 r) = ''//''
         then Inr (takeWhile (\<lambda>c. c \<notin> {CHR ''?'', CHR ''#''})
                     (dropWhile (\<lambda>c. c \<notin> {CHR ''/'', CHR ''?'', CHR ''#''}) (drop 3 r)))
         else Inr (takeWhile (\<lambda>c. c \<notin> {CHR ''?'', CHR ''#''}) (drop 1 r)))"

definition scenario_platform :: "int platform" where
  "scenario_platform = \<lparr>
     JSON_parse = parse_json,
     number_is_zero = (\<lambda>i. i = 0),
     number_is_finite = (\<lambda>i. True),
     number_to_string = show_int,
     URL_pathname = url_pathname
   \<rparr>"

section \<open>The broker client\<close>

text \<open>
  The two requests \<open>RabbitMQClient\<close> posts for the tools below: the body of
  \<open>POST /queues/{vhost}/{queue}/get\<close> and of \<open>POST /exchanges/{vhost}/{exchange}/publish\<close>,
  with the path arguments. The vhost is kept as the caller passed it; the client puts its
  configured vhost where none is given.
\<close>

record get_request =
  gr_vhost :: "string option"
  gr_queue :: string
  gr_count :: nat
  gr_ackmode :: string
  gr_encoding :: string
  gr_truncate :: nat

record 'n publish_request =
  pr_vhost :: "string option"
  pr_exchange :: string
  pr_routing_key :: string
  pr_payload :: string
  pr_payload_encoding :: string
  pr_delivery_mode :: nat
  pr_content_type :: string
  pr_headers :: "(string \<times> 'n json) list option"
  pr_message_id :: "string option"

text \<open>
  The broker behind the management API is not part of the repository: it is a parameter,
  a state of some type \<open>'b\<close> and its answer to each request. An answer \<open>Inl\<close> is the
  \<open>Error\<close> that \<open>request\<close> throws for a response that is not ok.
\<close>

record ('b, 'n) broker =
  get_messages :: "get_request \<Rightarrow> 'b \<Rightarrow> (error + 'n PeekedMessage list) \<times> 'b"
  publish :: "'n publish_request \<Rightarrow> 'b \<Rightarrow> (error + bool) \<times> 'b"

definition peekMessages ::
  "('b, 'n) broker \<Rightarrow> string \<Rightarrow> nat \<Rightarrow> string option \<Rightarrow> string option \<Rightarrow> 'b \<Rightarrow>
   (error + 'n PeekedMessage list) \<times> 'b" where
  \<comment> \<open>the last parameter is \<open>ackMode\<close>, \<open>"ack_requeue_true"\<close> when left out\<close>
  "peekMessages B queue count vhost ackMode =
     get_messages B \<lparr>
       gr_vhost = vhost,
       gr_queue = queue,
       gr_count = count,
       gr_ackmode = (case ackMode of None \<Rightarrow> ''ack_requeue_true'' | Some a \<Rightarrow> a),
       gr_encoding = ''auto'',
       gr_truncate = 50000 \<rparr>"

definition consumeMessages ::
  "('b, 'n) broker \<Rightarrow> string \<Rightarrow> nat \<Rightarrow> string option \<Rightarrow> 'b \<Rightarrow>
   (error + 'n PeekedMessage list) \<times> 'b" where
  "consumeMessages B queue count vhost =
     get_messages B \<lparr>
       gr_vhost = vhost,
       gr_queue = queue,
       gr_count = count,
       gr_ackmode = ''ack_requeue_false'',
       gr_encoding = ''auto'',
       gr_truncate = 50000 \<rparr>"

definition publishMessage ::
  "('b, 'n) broker \<Rightarrow> string \<Rightarrow> string \<Rightarrow> string \<Rightarrow> 'n properties \<Rightarrow> string option \<Rightarrow> 'b \<Rightarrow>
   (error + bool) \<times> 'b" where
  \<comment> \<open>\<open>properties\<close> is spread over the two defaults \<open>delivery_mode\<close> and \<open>content_type\<close>\<close>
  "publishMessage B exch routingKey text props vhost =
     publish B \<lparr>
       pr_vhost = vhost,
       pr_exchange = exch,
       pr_routing_key = routingKey,
       pr_payload = text,
       pr_payload_encoding = ''string'',
       pr_delivery_mode = 2,
       pr_content_type =
         (case content_type props of
            None \<Rightarrow> ''application/vnd.masstransit+json''
          | Some c \<Rightarrow> c),
       pr_headers = headers props,
       pr_message_id = message_id props \<rparr>"


section \<open>The tool \<open>peek_messages\<close>\<close>

definition peek_truncated :: "string \<Rightarrow> string" where
  "peek_truncated s =
     (if length s > 1000 then slice_to s 1000 @ [CHR 0x0A] @ ''... (truncated)'' else s)"

definition peek_message_lines :: "'n platform \<Rightarrow> 'n PeekedMessage \<Rightarrow> nat \<Rightarrow> error + string list" where
  \<comment> \<open>one round of the loop of \<open>peek_messages\<close>: the lines pushed for message \<open>i\<close>\<close>
  "peek_message_lines P msg i =
     (case parseEnvelope P (payload msg) of
        Some envelope \<Rightarrow>
          and_then (messageTypes_of P (Some envelope)) (\<lambda>types.
          collect
            [Inr [''--- Message '' @ show_nat (i + 1) @ '' ---''],
             line ''MessageId: '' (str_or P (get envelope ''messageId'') ''unknown''),
             line ''Sent: '' (str_or P (get envelope ''sentTime'') ''unknown''),
             Inr [''Type: '' @ type_names_or_unknown types],
             lines_when (truthy_opt P (get envelope ''correlationId''))
               (line ''CorrelationId: '' (template P (get envelope ''correlationId''))),
             lines_when (truthy_opt P (get envelope ''conversationId''))
               (line ''ConversationId: '' (template P (get envelope ''conversationId''))),
             Inr [''Payload:'',
                  peek_truncated
                    (JSON_stringify P
                       (case coalesce (get envelope ''message'') (Some (JObject [])) of
                          Some v \<Rightarrow> v | None \<Rightarrow> JObject []))],
             Inr ['''']])
      | None \<Rightarrow>
          Inr [''--- Message '' @ show_nat (i + 1) @ '' ---'',
               ''Exchange: '' @ exchange msg,
               ''Routing Key: '' @ routing_key msg,
               ''Content Type: '' @
                 (case content_type (properties msg) of None \<Rightarrow> ''unknown'' | Some c \<Rightarrow> c),
               ''Payload:'',
               peek_truncated (payload msg),
               ''''])"

fun peek_all_lines :: "'n platform \<Rightarrow> 'n PeekedMessage list \<Rightarrow> nat \<Rightarrow> error + string list" where
  "peek_all_lines P [] i = Inr []"
| "peek_all_lines P (m # ms) i =
     and_then (peek_message_lines P m i) (\<lambda>ls.
     and_then (peek_all_lines P ms (i + 1)) (\<lambda>rest. Inr (ls @ rest)))"

definition peek_messages ::
  "'n platform \<Rightarrow> ('b, 'n) broker \<Rightarrow> string \<Rightarrow> nat option \<Rightarrow> string option \<Rightarrow> 'b \<Rightarrow>
   (error + string) \<times> 'b" where
  "peek_messages P B queue count vhost s =
     (case peekMessages B queue (case count of None \<Rightarrow> 5 | Some c \<Rightarrow> c) vhost None s of
        (Inl e, s') \<Rightarrow> (Inl e, s')
      | (Inr messages, s') \<Rightarrow>
          if length messages = 0
          then (Inr (''Queue '' @ [CHR 0x22] @ queue @ [CHR 0x22] @ '' is empty.''), s')
          else (and_then (peek_all_lines P messages 0) (\<lambda>ls.
                  Inr (join [CHR 0x0A]
                    ((''Queue: '' @ queue @ '' ('' @ show_nat (length messages) @
                      '' message(s) peeked)'' @ [CHR 0x0A]) # ls))), s'))"


section \<open>The tool \<open>republish_from_error\<close>\<close>

definition em_dash :: string where
  \<comment> \<open>the dash of the "is empty" text, in UTF-8\<close>
  "em_dash = [CHR 0xE2, CHR 0x80, CHR 0x94]"

definition nothing_to_republish :: "string \<Rightarrow> string" where
  "nothing_to_republish errorQueue =
     ''Queue '' @ [CHR 0x22] @ errorQueue @ [CHR 0x22] @ '' is empty '' @ em_dash @
     '' nothing to republish.''"

fun preview_lines :: "'n platform \<Rightarrow> 'n PeekedMessage list \<Rightarrow> nat \<Rightarrow> error + string list" where
  \<comment> \<open>\<open>for (let i = 0; ...) { lines.push(formatFaultMessage(messages[i], i)); lines.push("") }\<close>\<close>
  "preview_lines P [] i = Inr []"
| "preview_lines P (m # ms) i =
     and_then (formatFaultMessage P m i) (\<lambda>t.
     and_then (preview_lines P ms (i + 1)) (\<lambda>rest. Inr (t # '''' # rest)))"

definition instruction :: "nat \<Rightarrow> string" where
  "instruction n =
     ''To republish these messages, call again with confirm=true and count='' @
     show_nat n @ ''.''"

definition preview_text :: "'n platform \<Rightarrow> string \<Rightarrow> 'n PeekedMessage list \<Rightarrow> error + string" where
  "preview_text P errorQueue messages =
     and_then (preview_lines P messages 0) (\<lambda>previews.
       Inr (join [CHR 0x0A]
         ([''Preview: '' @ show_nat (length messages) @ '' message(s) from '' @ [CHR 0x22] @
           errorQueue @ [CHR 0x22] @ '' ready to republish:'' @ [CHR 0x0A]] @
          previews @
          [''---'', instruction (length messages)])))"

definition resolve_destination ::
  "'n platform \<Rightarrow> string \<Rightarrow> 'n PeekedMessage \<Rightarrow> error + (string \<times> string)" where
  \<comment> \<open>the first half of the \<open>try\<close> block: \<open>targetExchange\<close> and \<open>routingKey\<close>\<close>
  "resolve_destination P errorQueue msg =
     (let envelope = parseEnvelope P (payload msg)
      in if truthy_opt P (opt_get envelope ''destinationAddress'')
         then and_then (template P (opt_get envelope ''destinationAddress'')) (\<lambda>address.
              and_then (URL_pathname P address) (\<lambda>pathname.
                let pathParts = filter (\<lambda>part. part \<noteq> []) (split CHR ''/'' pathname);
                    targetExchange = (if pathParts = [] then [] else last pathParts)
                in Inr (targetExchange, targetExchange)))
         else (let sourceQueue = getSourceQueue errorQueue
               in Inr (sourceQueue, sourceQueue)))"

definition error_entry :: "nat \<Rightarrow> error \<Rightarrow> string" where
  \<comment> \<open>\<open>`Message ${republished + 1}: ${errMsg}`\<close>\<close>
  "error_entry republished err =
     ''Message '' @ show_nat (republished + 1) @ '': '' @ error_message err"

definition forwarded_properties :: "'n PeekedMessage \<Rightarrow> 'n properties" where
  \<comment> \<open>the \<open>properties\<close> argument of the call of \<open>publishMessage\<close>\<close>
  "forwarded_properties msg =
     \<lparr> headers = headers (properties msg),
       content_type =
         Some (case content_type (properties msg) of
                 None \<Rightarrow> ''application/vnd.masstransit+json''
               | Some c \<Rightarrow> c),
       message_id = message_id (properties msg) \<rparr>"

fun republish_loop ::
  "'n platform \<Rightarrow> ('b, 'n) broker \<Rightarrow> string \<Rightarrow> string option \<Rightarrow> 'n PeekedMessage list \<Rightarrow>
   nat \<Rightarrow> string list \<Rightarrow> 'b \<Rightarrow> (nat \<times> string list) \<times> 'b" where
  \<comment> \<open>\<open>for (const msg of messages) { try { ... republished++ } catch (err) { errors.push(...) } }\<close>\<close>
  "republish_loop P B errorQueue vhost [] republished errors s = ((republished, errors), s)"
| "republish_loop P B errorQueue vhost (msg # msgs) republished errors s =
     (case resolve_destination P errorQueue msg of
        Inl err \<Rightarrow>
          republish_loop P B errorQueue vhost msgs republished
            (errors @ [error_entry republished err]) s
      | Inr (targetExchange, routingKey) \<Rightarrow>
          (case publishMessage B targetExchange routingKey (payload msg)
                  (forwarded_properties msg) vhost s of
             (Inl err, s') \<Rightarrow>
               republish_loop P B errorQueue vhost msgs republished
                 (errors @ [error_entry republished err]) s'
           | (Inr routed, s') \<Rightarrow>
               republish_loop P B errorQueue vhost msgs (republished + 1) errors s'))"

definition outcome_text :: "string \<Rightarrow> nat \<Rightarrow> nat \<Rightarrow> string list \<Rightarrow> string" where
  "outcome_text errorQueue republished attempted errors =
     join [CHR 0x0A]
       ([''Republished '' @ show_nat republished @ ''/'' @ show_nat attempted @
         '' message(s) from '' @ [CHR 0x22] @ errorQueue @ [CHR 0x22] @ ''.''] @
        (if length errors > 0 then ['''', ''Errors:''] @ errors else []))"

definition republish_from_error ::
  "'n platform \<Rightarrow> ('b, 'n) broker \<Rightarrow> string \<Rightarrow> nat option \<Rightarrow> bool option \<Rightarrow> string option \<Rightarrow>
   'b \<Rightarrow> (error + string) \<times> 'b" where
  "republish_from_error P B errorQueue count confirm vhost s =
     (let peekCount = (case count of None \<Rightarrow> 1 | Some c \<Rightarrow> c)
      in if \<not> (case confirm of None \<Rightarrow> False | Some c \<Rightarrow> c)
         then (case peekMessages B errorQueue peekCount vhost None s of
                 (Inl e, s') \<Rightarrow> (Inl e, s')
               | (Inr messages, s') \<Rightarrow>
                   if length messages = 0 then (Inr (nothing_to_republish errorQueue), s')
                   else (preview_text P errorQueue messages, s'))
         else (case consumeMessages B errorQueue peekCount vhost s of
                 (Inl e, s') \<Rightarrow> (Inl e, s')
               | (Inr messages, s') \<Rightarrow>
                   if length messages = 0 then (Inr (nothing_to_republish errorQueue), s')
                   else (case republish_loop P B errorQueue vhost messages 0 [] s' of
                           ((republished, errors), s'') \<Rightarrow>
                             (Inr (outcome_text errorQueue republished (length messages) errors),
                              s''))))"


section \<open>A record of the requests, and a broker to run the scenarios on\<close>

datatype 'n request = Get get_request | Publish "'n publish_request"

definition logged :: "('b, 'n) broker \<Rightarrow> ('b \<times> 'n request list, 'n) broker" where
  \<comment> \<open>the same broker, writing down each request it receives\<close>
  "logged B = \<lparr>
     get_messages = (\<lambda>r (s, log).
       case get_messages B r s of (answer, s') \<Rightarrow> (answer, (s', log @ [Get r]))),
     publish = (\<lambda>r (s, log).
       case publish B r s of (answer, s') \<Rightarrow> (answer, (s', log @ [Publish r])))
   \<rparr>"

record 'n broker_state =
  queues :: "string \<Rightarrow> 'n PeekedMessage list"
  exchanges :: "string list"
  published :: "'n publish_request list"

text \<open>
  Modelled from the spec: the broker itself, an external collaborator of which the
  repository holds only the client. The specification gives the two reads as
  "non-destructive ... requeue-on-read semantics (messages remain in the queue)" and
  "destructive ... acknowledge-on-read (messages are removed from the queue)", each "of up
  to \<open>count\<close> messages", and lets a publish attempt fail. Here a publish fails when the
  exchange does not exist.
\<close>

definition scenario_broker :: "('n broker_state, 'n) broker" where
  "scenario_broker = \<lparr>
     get_messages = (\<lambda>r s.
       if gr_ackmode r = ''ack_requeue_true''
       then (Inr (take (gr_count r) (queues s (gr_queue r))), s)
       else if gr_ackmode r = ''ack_requeue_false''
       then (Inr (take (gr_count r) (queues s (gr_queue r))),
             s\<lparr>queues := (queues s)(gr_queue r := drop (gr_count r) (queues s (gr_queue r)))\<rparr>)
       else (Inl (Error ''RabbitMQ API error: 400 Bad Request''), s)),
     publish = (\<lambda>r s.
       if pr_exchange r \<in> set (exchanges s)
       then (Inr True, s\<lparr>published := published s @ [r]\<rparr>)
       else (Inl (Error ''RabbitMQ API error: 404 Not Found''), s))
   \<rparr>"

section \<open>Scenario messages\<close>

text \<open>The messages of the scenarios of the specification, and a few more of the same kind.\<close>

definition order_fault_payload :: string where
  "order_fault_payload =
     ''{\"messageType\":[\"urn:message:App:OrderPlaced\"],\"message\":{\"id\":1}}''"

definition order_fault_headers :: "(string \<times> 'n json) list" where
  "order_fault_headers =
     [(''MT-Reason'', JString ''fault''),
      (''MT-Fault-ExceptionType'', JString ''System.InvalidOperationException''),
      (''MT-Fault-Message'', JString ''bad state''),
      (''MT-Fault-RetryCount'', JString ''3'')]"

definition message_of :: "string \<Rightarrow> (string \<times> 'n json) list option \<Rightarrow> 'n PeekedMessage" where
  \<comment> \<open>a message as it sits in the queue \<open>orders_error\<close>, delivered through the default exchange\<close>
  "message_of text hs =
     \<lparr> payload = text, exchange = [], routing_key = ''orders_error'',
       properties = \<lparr> headers = hs, content_type = None, message_id = None \<rparr> \<rparr>"

definition address_payload :: string where
  "address_payload =
     ''{\"messageId\":\"m-1\",\"destinationAddress\":\"proto://host/vhost/orders-exchange\",\"message\":{\"id\":1}}''"

definition plain_payload :: string where
  "plain_payload = ''{\"messageId\":\"m-2\",\"message\":{\"id\":2}}''"

definition malformed_payload :: string where
  "malformed_payload =
     ''{\"messageId\":\"m-3\",\"destinationAddress\":\"not a uri\",\"message\":{\"id\":3}}''"

definition missing_exchange_payload :: string where
  "missing_exchange_payload =
     ''{\"messageId\":\"m-4\",\"destinationAddress\":\"proto://host/vhost/no-such-exchange\",\"message\":{\"id\":4}}''"

definition orders_broker :: "'n PeekedMessage list \<Rightarrow> 'n broker_state" where
  \<comment> \<open>a broker holding the given messages in \<open>orders_error\<close>, with two exchanges\<close>
  "orders_broker msgs =
     \<lparr> queues = (\<lambda>q. if q = ''orders_error'' then msgs else []),
       exchanges = [''orders'', ''orders-exchange''],
       published = [] \<rparr>"




definition both_faults_payload :: string where
  "both_faults_payload =
     ''{\"messageType\":[\"urn:message:MassTransit:Fault\"],\"message\":{\"faultedMessageId\":\"m-7\",\"exceptions\":[{\"exceptionType\":\"Body.Exception\",\"message\":\"from the body\"}],\"message\":{\"id\":7}}}''"

definition both_faults_headers :: "(string \<times> 'n json) list" where
  "both_faults_headers =
     [(''MT-Reason'', JString ''fault''),
      (''MT-Fault-ExceptionType'', JString ''Header.Exception''),
      (''MT-Fault-Message'', JString ''from the headers'')]"

section \<open>Properties of the string helpers\<close>

lemma endsWith_append [simp]: "endsWith (n @ suf) suf"
  by (simp add: endsWith_def)

lemma endsWith_last: "endsWith s suf \<Longrightarrow> suf \<noteq> [] \<Longrightarrow> s \<noteq> [] \<and> last s = last suf"
proof -
  assume e: "endsWith s suf" and ne: "suf \<noteq> []"
  from e have l: "length suf \<le> length s" and d: "drop (length s - length suf) s = suf"
    by (simp_all add: endsWith_def)
  from l ne have sne: "s \<noteq> []" by auto
  have "s = take (length s - length suf) s @ suf"
    using d by (metis append_take_drop_id)
  then have "last s = last (take (length s - length suf) s @ suf)" by simp
  also have "\<dots> = last suf" using ne by simp
  finally show ?thesis using sne by simp
qed

lemma slice_to_strip: "suf \<noteq> [] \<Longrightarrow> slice_to (n @ suf) (- int (length suf)) = n"
  by (simp add: slice_to_def)


section \<open>Queue naming: suffix laws\<close>

text \<open>
  C9. For every queue name \<open>n\<close>: \<open>isErrorQueue (n + "_error")\<close> holds and the source queue
  of \<open>n + "_error"\<close> is \<open>n\<close>; \<open>isSkippedQueue (n + "_skipped")\<close> holds and the source queue
  of \<open>n + "_skipped"\<close> is \<open>n\<close>; and a name that ends in neither suffix is its own source
  queue.
\<close>

theorem queue_suffix_laws:
  "isErrorQueue (n @ ''_error'') \<and> getSourceQueue (n @ ''_error'') = n \<and>
   isSkippedQueue (n @ ''_skipped'') \<and> getSourceQueue (n @ ''_skipped'') = n \<and>
   (\<not> endsWith m ''_error'' \<and> \<not> endsWith m ''_skipped'' \<longrightarrow> getSourceQueue m = m)"
proof -
  have e: "isErrorQueue (n @ ''_error'')"
    unfolding isErrorQueue_def ERROR_SUFFIX_def by (rule endsWith_append)
  have se: "getSourceQueue (n @ ''_error'') = n"
    using slice_to_strip [where n = n and suf = "''_error''"]
    by (simp add: getSourceQueue_def ERROR_SUFFIX_def)
  have k: "isSkippedQueue (n @ ''_skipped'')"
    unfolding isSkippedQueue_def SKIPPED_SUFFIX_def by (rule endsWith_append)
  have ne: "\<not> endsWith (n @ ''_skipped'') ''_error''"
    using endsWith_last [of "n @ ''_skipped''" "''_error''"] by auto
  have sk: "getSourceQueue (n @ ''_skipped'') = n"
    using ne slice_to_strip [where n = n and suf = "''_skipped''"]
    by (simp add: getSourceQueue_def ERROR_SUFFIX_def SKIPPED_SUFFIX_def)
  have other: "\<not> endsWith m ''_error'' \<and> \<not> endsWith m ''_skipped'' \<longrightarrow> getSourceQueue m = m"
    by (simp add: getSourceQueue_def ERROR_SUFFIX_def SKIPPED_SUFFIX_def)
  from e se k sk other show ?thesis by blast
qed

theorem queue_suffix_laws_witness:
  "isErrorQueue (''orders'' @ ''_error'') \<and> getSourceQueue (''orders'' @ ''_error'') = ''orders'' \<and>
   isSkippedQueue (''orders'' @ ''_skipped'') \<and>
   getSourceQueue (''orders'' @ ''_skipped'') = ''orders'' \<and>
   \<not> endsWith ''orders'' ''_error'' \<and> \<not> endsWith ''orders'' ''_skipped'' \<and>
   getSourceQueue ''orders'' = ''orders''"
proof -
  have h: "\<not> endsWith ''orders'' ''_error'' \<and> \<not> endsWith ''orders'' ''_skipped''"
    by (simp add: endsWith_def)
  from queue_suffix_laws [of "''orders''" "''orders''"] h show ?thesis by blast
qed

section \<open>Envelope recognition\<close>

lemma get_Some_object: "get v k = Some x \<Longrightarrow> \<exists>kvs. v = JObject kvs \<and> map_of kvs k = Some x"
  by (cases v) simp_all

text \<open>
  C8. For every payload text: when \<open>JSON.parse\<close> throws, \<open>parseEnvelope\<close> returns \<open>null\<close>
  (a value, never a raised error: the function's result type has no error); when it
  returns an envelope, the parsed payload is a JSON object with at least one of the keys
  \<open>messageType\<close>, \<open>messageId\<close>, \<open>message\<close>, and the envelope is that object; and any
  parsed value with none of the three keys gives \<open>null\<close>.
\<close>

theorem parseEnvelope_recognition:
  "(JSON_parse P text = None \<longrightarrow> parseEnvelope P text = None) \<and>
   (parseEnvelope P text = Some e \<longrightarrow>
      (\<exists>kvs. JSON_parse P text = Some (JObject kvs) \<and> e = JObject kvs \<and>
             (map_of kvs ''messageType'' \<noteq> None \<or> map_of kvs ''messageId'' \<noteq> None \<or>
              map_of kvs ''message'' \<noteq> None))) \<and>
   (JSON_parse P text = Some v \<and> get v ''messageType'' = None \<and> get v ''messageId'' = None \<and>
      get v ''message'' = None \<longrightarrow> parseEnvelope P text = None)"
proof (intro conjI impI)
  assume "JSON_parse P text = None"
  then show "parseEnvelope P text = None" by (simp add: parseEnvelope_def)
next
  assume a: "parseEnvelope P text = Some e"
  then obtain parsed where p: "JSON_parse P text = Some parsed" and e: "e = parsed"
    and t: "truthy_opt P (get parsed ''messageType'') \<or> truthy_opt P (get parsed ''messageId'') \<or>
            truthy_opt P (get parsed ''message'')"
    by (auto simp: parseEnvelope_def split: option.splits if_splits)
  from t obtain k x where "get parsed k = Some x"
    and k: "k = ''messageType'' \<or> k = ''messageId'' \<or> k = ''message''"
    by (metis truthy_opt.elims(2))
  then obtain kvs where kv: "parsed = JObject kvs" and m: "map_of kvs k = Some x"
    using get_Some_object by blast
  from k m have "map_of kvs ''messageType'' \<noteq> None \<or> map_of kvs ''messageId'' \<noteq> None \<or>
              map_of kvs ''message'' \<noteq> None" by auto
  with p e kv show "\<exists>kvs. JSON_parse P text = Some (JObject kvs) \<and> e = JObject kvs \<and>
             (map_of kvs ''messageType'' \<noteq> None \<or> map_of kvs ''messageId'' \<noteq> None \<or>
              map_of kvs ''message'' \<noteq> None)" by blast
next
  assume "JSON_parse P text = Some v \<and> get v ''messageType'' = None \<and> get v ''messageId'' = None \<and>
      get v ''message'' = None"
  then show "parseEnvelope P text = None" by (simp add: parseEnvelope_def)
qed

theorem parseEnvelope_recognition_witness:
  "JSON_parse scenario_platform ''{not json'' = None \<and>
   parseEnvelope scenario_platform ''{not json'' = None \<and>
   parseEnvelope scenario_platform ''{\"messageId\":\"m-1\"}'' =
     Some (JObject [(''messageId'', JString ''m-1'')]) \<and>
   JSON_parse scenario_platform ''{\"messageId\":\"m-1\"}'' =
     Some (JObject [(''messageId'', JString ''m-1'')]) \<and>
   JSON_parse scenario_platform ''{\"orderId\":5}'' = Some (JObject [(''orderId'', JNumber 5)]) \<and>
   parseEnvelope scenario_platform ''{\"orderId\":5}'' = None"
proof -
  have 1: "JSON_parse scenario_platform ''{not json'' = None"
    by code_simp
  have 2: "parseEnvelope scenario_platform ''{\"messageId\":\"m-1\"}'' =
     Some (JObject [(''messageId'', JString ''m-1'')])"
    by code_simp
  have 3: "JSON_parse scenario_platform ''{\"orderId\":5}'' =
     Some (JObject [(''orderId'', JNumber 5)])"
    by code_simp
  from parseEnvelope_recognition [of scenario_platform "''{not json''"] 1
  have a: "parseEnvelope scenario_platform ''{not json'' = None"
    by blast
  from parseEnvelope_recognition
         [of scenario_platform "''{\"messageId\":\"m-1\"}''" "JObject [(''messageId'', JString ''m-1'')]"] 2
  have b: "JSON_parse scenario_platform ''{\"messageId\":\"m-1\"}'' =
     Some (JObject [(''messageId'', JString ''m-1'')])"
    by auto
  from parseEnvelope_recognition
         [of scenario_platform "''{\"orderId\":5}''" _ "JObject [(''orderId'', JNumber 5)]"] 3
  have c: "parseEnvelope scenario_platform ''{\"orderId\":5}'' = None"
    by simp
  from 1 a 2 b 3 c show ?thesis by blast
qed

text \<open>
  C10. Recognition tests the values, not the keys: a payload that parses to an object
  none of whose \<open>messageType\<close>, \<open>messageId\<close>, \<open>message\<close> is truthy is not an envelope,
  whether or not the keys are there. The witness has the two payloads
  \<open>{"messageId":""}\<close> and \<open>{"message":null}\<close>, valid JSON with a marker key, for which
  \<open>parseEnvelope\<close> returns \<open>null\<close>.
\<close>

theorem parseEnvelope_falsy_marker:
  "JSON_parse P text = Some (JObject kvs) \<Longrightarrow>
   \<not> truthy_opt P (map_of kvs ''messageType'') \<Longrightarrow>
   \<not> truthy_opt P (map_of kvs ''messageId'') \<Longrightarrow>
   \<not> truthy_opt P (map_of kvs ''message'') \<Longrightarrow>
   parseEnvelope P text = None"
  by (simp add: parseEnvelope_def)

theorem parseEnvelope_falsy_marker_witness:
  "JSON_parse scenario_platform ''{\"messageId\":\"\"}'' =
     Some (JObject [(''messageId'', JString [])]) \<and>
   map_of [(''messageId'', JString [])] ''messageId'' \<noteq> (None :: int json option) \<and>
   parseEnvelope scenario_platform ''{\"messageId\":\"\"}'' = None \<and>
   JSON_parse scenario_platform ''{\"message\":null}'' = Some (JObject [(''message'', JNull)]) \<and>
   map_of [(''message'', JNull)] ''message'' \<noteq> (None :: int json option) \<and>
   parseEnvelope scenario_platform ''{\"message\":null}'' = None"
proof -
  have 1: "JSON_parse scenario_platform ''{\"messageId\":\"\"}'' =
     Some (JObject [(''messageId'', JString [])])"
    by code_simp
  have 2: "JSON_parse scenario_platform ''{\"message\":null}'' =
     Some (JObject [(''message'', JNull)])"
    by code_simp
  have a: "parseEnvelope scenario_platform ''{\"messageId\":\"\"}'' = None"
    by (rule parseEnvelope_falsy_marker [OF 1]) simp_all
  have b: "parseEnvelope scenario_platform ''{\"message\":null}'' = None"
    by (rule parseEnvelope_falsy_marker [OF 2]) simp_all
  from 1 2 a b show ?thesis by simp
qed


section \<open>Precedence of the header strategy\<close>

text \<open>
  C1. A message whose headers yield a fault (\<open>MT-Reason\<close> or \<open>MT-Fault-ExceptionType\<close>
  truthy) is rendered by the header branch, whether or not its payload yields a body
  fault too: the result of \<open>formatFaultMessage\<close> is the result of \<open>headerFaultReport\<close>
  on the header fault and the envelope (which supplies what the header report always takes
  from it, the message type when no header names it and the original payload). The fault
  that \<open>parseFault\<close> builds from the payload is no argument of that report, so the two
  faults are not merged. The body branch renders only a message whose headers yield no
  fault. Each side of the equations is a result: a text, or the \<open>TypeError\<close> with which
  the branch ends. The witness is a message with both faults, with its report, which
  differs from its body report.
\<close>

theorem header_fault_precedence:
  "(truthy_opt P (map_of (headers_of msg) ''MT-Reason'') \<or>
    truthy_opt P (map_of (headers_of msg) ''MT-Fault-ExceptionType'') \<longrightarrow>
      (\<exists>hf. parseFaultFromHeaders P (headers_of msg) = Some hf \<and>
            formatFaultMessage P msg i =
              headerFaultReport P hf (parseEnvelope P (payload msg)) i)) \<and>
   (\<not> truthy_opt P (map_of (headers_of msg) ''MT-Reason'') \<and>
    \<not> truthy_opt P (map_of (headers_of msg) ''MT-Fault-ExceptionType'') \<longrightarrow>
      parseFaultFromHeaders P (headers_of msg) = None \<and>
      (\<forall>bf. parseFault P (payload msg) = Some bf \<longrightarrow>
            formatFaultMessage P msg i =
              bodyFaultReport P bf (parseEnvelope P (payload msg)) i))"
proof (intro conjI impI)
  assume "truthy_opt P (map_of (headers_of msg) ''MT-Reason'') \<or>
    truthy_opt P (map_of (headers_of msg) ''MT-Fault-ExceptionType'')"
  then obtain hf where hf: "parseFaultFromHeaders P (headers_of msg) = Some hf"
    by (auto simp: parseFaultFromHeaders_def Let_def)
  then have "formatFaultMessage P msg i = headerFaultReport P hf (parseEnvelope P (payload msg)) i"
    by (simp add: formatFaultMessage_def Let_def)
  with hf show "\<exists>hf. parseFaultFromHeaders P (headers_of msg) = Some hf \<and>
            formatFaultMessage P msg i =
              headerFaultReport P hf (parseEnvelope P (payload msg)) i" by blast
next
  assume a: "\<not> truthy_opt P (map_of (headers_of msg) ''MT-Reason'') \<and>
    \<not> truthy_opt P (map_of (headers_of msg) ''MT-Fault-ExceptionType'')"
  then show n: "parseFaultFromHeaders P (headers_of msg) = None"
    by (simp add: parseFaultFromHeaders_def Let_def)
  then show "\<forall>bf. parseFault P (payload msg) = Some bf \<longrightarrow>
            formatFaultMessage P msg i =
              bodyFaultReport P bf (parseEnvelope P (payload msg)) i"
    by (simp add: formatFaultMessage_def Let_def)
qed

theorem header_fault_precedence_witness:
  "formatFaultMessage scenario_platform
       (message_of both_faults_payload (Some both_faults_headers)) 0 =
     Inr (join [CHR 0x0A]
       [''Message 1:'',
        ''  Faulted: unknown'',
        ''  Reason: fault'',
        ''  Message Type: MassTransit.Fault'',
        ''  Exception: Header.Exception - \"from the headers\"'',
        ''  Original Payload: {'',
        ''  \"faultedMessageId\": \"m-7\",'',
        ''  \"exceptions\": ['',
        ''    {'',
        ''      \"exceptionType\": \"Body.Exception\",'',
        ''      \"message\": \"from the body\"'',
        ''    }'',
        ''  ],'',
        ''  \"message\": {'',
        ''    \"id\": 7'',
        ''  }'',
        ''}'',
        ''  Source Host: unknown / unknown (PID ?)'']) \<and>
   truthy_opt scenario_platform
     (map_of (headers_of (message_of both_faults_payload (Some both_faults_headers))) ''MT-Reason'') \<and>
   parseFault scenario_platform both_faults_payload \<noteq> None \<and>
   (\<exists>hf. parseFaultFromHeaders scenario_platform both_faults_headers = Some hf \<and>
      formatFaultMessage scenario_platform
          (message_of both_faults_payload (Some both_faults_headers)) 0 =
        headerFaultReport scenario_platform hf
          (parseEnvelope scenario_platform both_faults_payload) 0) \<and>
   formatFaultMessage scenario_platform
       (message_of both_faults_payload (Some both_faults_headers)) 0 \<noteq>
     bodyFaultReport scenario_platform (the (parseFault scenario_platform both_faults_payload))
       (parseEnvelope scenario_platform both_faults_payload) 0 \<and>
   \<not> truthy_opt scenario_platform
       (map_of (headers_of (message_of both_faults_payload None)) ''MT-Reason'') \<and>
   \<not> truthy_opt scenario_platform
       (map_of (headers_of (message_of both_faults_payload None)) ''MT-Fault-ExceptionType'') \<and>
   formatFaultMessage scenario_platform (message_of both_faults_payload None) 0 =
     bodyFaultReport scenario_platform (the (parseFault scenario_platform both_faults_payload))
       (parseEnvelope scenario_platform both_faults_payload) 0"
proof -
  let ?m = "message_of both_faults_payload (Some both_faults_headers) :: int PeekedMessage"
  let ?n = "message_of both_faults_payload None :: int PeekedMessage"
  have h: "truthy_opt scenario_platform (map_of (headers_of ?m) ''MT-Reason'')"
    by code_simp
  have b: "parseFault scenario_platform both_faults_payload \<noteq> None"
    by code_simp
  have hm: "headers_of ?m = both_faults_headers" "payload ?m = both_faults_payload"
     "payload ?n = both_faults_payload"
    by (simp_all add: headers_of_def message_of_def)
  have d: "formatFaultMessage scenario_platform ?m 0 \<noteq>
     bodyFaultReport scenario_platform (the (parseFault scenario_platform both_faults_payload))
       (parseEnvelope scenario_platform both_faults_payload) 0"
    by code_simp
  have n1: "\<not> truthy_opt scenario_platform (map_of (headers_of ?n) ''MT-Reason'')"
    and n2: "\<not> truthy_opt scenario_platform (map_of (headers_of ?n) ''MT-Fault-ExceptionType'')"
    by code_simp+
  from b obtain bf where bf: "parseFault scenario_platform both_faults_payload = Some bf" by blast
  from header_fault_precedence [of scenario_platform ?m 0] h hm
  have 1: "\<exists>hf. parseFaultFromHeaders scenario_platform both_faults_headers = Some hf \<and>
      formatFaultMessage scenario_platform ?m 0 =
        headerFaultReport scenario_platform hf (parseEnvelope scenario_platform both_faults_payload) 0"
    by simp
  from header_fault_precedence [of scenario_platform ?n 0] n1 n2 hm bf
  have 2: "formatFaultMessage scenario_platform ?n 0 =
     bodyFaultReport scenario_platform (the (parseFault scenario_platform both_faults_payload))
       (parseEnvelope scenario_platform both_faults_payload) 0"
    by simp
  have t: "formatFaultMessage scenario_platform ?m 0 =
     Inr (join [CHR 0x0A]
       [''Message 1:'',
        ''  Faulted: unknown'',
        ''  Reason: fault'',
        ''  Message Type: MassTransit.Fault'',
        ''  Exception: Header.Exception - \"from the headers\"'',
        ''  Original Payload: {'',
        ''  \"faultedMessageId\": \"m-7\",'',
        ''  \"exceptions\": ['',
        ''    {'',
        ''      \"exceptionType\": \"Body.Exception\",'',
        ''      \"message\": \"from the body\"'',
        ''    }'',
        ''  ],'',
        ''  \"message\": {'',
        ''    \"id\": 7'',
        ''  }'',
        ''}'',
        ''  Source Host: unknown / unknown (PID ?)''])"
    by code_simp
  from t h b 1 d n1 n2 2 show ?thesis by blast
qed


section \<open>The scenario of the faulted order\<close>

lemma show_nat_1 [simp]: "show_nat (Suc 0) = ''1''" "show_nat 1 = ''1''"
  by code_simp+

text \<open>
  C6. A message with the headers \<open>MT-Reason: fault\<close>,
  \<open>MT-Fault-ExceptionType: System.InvalidOperationException\<close>, \<open>MT-Fault-Message: bad state\<close>,
  \<open>MT-Fault-RetryCount: 3\<close> and the payload
  \<open>{"messageType":["urn:message:App:OrderPlaced"],"message":{"id":1}}\<close> is formatted as the
  eight lines below: among them the lines for Reason, Exception, Retry Count, Message Type
  (the envelope's URN decoded, there being no \<open>MT-Fault-MessageType\<close> header) and the
  Original Payload block with \<open>"id": 1\<close>. The hypotheses say what \<open>JSON.parse\<close> returns
  for this payload and how the number 1 prints.
\<close>

theorem order_fault_report:
  assumes "payload msg = order_fault_payload"
    and "headers (properties msg) = Some order_fault_headers"
    and "JSON_parse P order_fault_payload =
           Some (JObject [(''messageType'', JArray [JString ''urn:message:App:OrderPlaced'']),
                          (''message'', JObject [(''id'', JNumber one)])])"
    and "number_is_finite P one" and "number_to_string P one = ''1''"
  shows "formatFaultMessage P msg 0 =
     Inr (join [CHR 0x0A]
       [''Message 1:'',
        ''  Faulted: unknown'',
        ''  Reason: fault'',
        ''  Message Type: App.OrderPlaced'',
        ''  Exception: System.InvalidOperationException - '' @ [CHR 0x22] @ ''bad state'' @ [CHR 0x22],
        ''  Retry Count: 3'',
        ''  Original Payload: {'' @ [CHR 0x0A] @
          ''  '' @ [CHR 0x22] @ ''id'' @ [CHR 0x22] @ '': 1'' @ [CHR 0x0A] @ ''}'',
        ''  Source Host: unknown / unknown (PID ?)''])"
  using assms
  by (simp add: formatFaultMessage_def headers_of_def parseFaultFromHeaders_def
      order_fault_headers_def parseFault_def parseEnvelope_def headerFaultReport_def Let_def
      first_exception_def object_literal_def List.map_filter_def messageTypes_of_def and_then_def
      getMessageTypeName_def startsWith_def replace_all_def slice_from_def hostInfo_of_def
      str_or_def line_def lines_when_def template_def stack_trace_line_def
      original_payload_line_def JSON_stringify_def truncated_def quote_def quote_char_def)

theorem order_fault_report_witness:
  "payload (message_of order_fault_payload (Some order_fault_headers) :: int PeekedMessage) =
     order_fault_payload \<and>
   headers (properties (message_of order_fault_payload (Some order_fault_headers) :: int PeekedMessage)) =
     Some order_fault_headers \<and>
   JSON_parse scenario_platform order_fault_payload =
     Some (JObject [(''messageType'', JArray [JString ''urn:message:App:OrderPlaced'']),
                    (''message'', JObject [(''id'', JNumber 1)])]) \<and>
   number_is_finite scenario_platform 1 \<and>
   number_to_string scenario_platform 1 = ''1'' \<and>
   formatFaultMessage scenario_platform (message_of order_fault_payload (Some order_fault_headers)) 0 =
     Inr (join [CHR 0x0A]
       [''Message 1:'',
        ''  Faulted: unknown'',
        ''  Reason: fault'',
        ''  Message Type: App.OrderPlaced'',
        ''  Exception: System.InvalidOperationException - '' @ [CHR 0x22] @ ''bad state'' @ [CHR 0x22],
        ''  Retry Count: 3'',
        ''  Original Payload: {'' @ [CHR 0x0A] @
          ''  '' @ [CHR 0x22] @ ''id'' @ [CHR 0x22] @ '': 1'' @ [CHR 0x0A] @ ''}'',
        ''  Source Host: unknown / unknown (PID ?)''])"
proof -
  let ?m = "message_of order_fault_payload (Some order_fault_headers) :: int PeekedMessage"
  have 1: "payload ?m = order_fault_payload"
    and 2: "headers (properties ?m) = Some order_fault_headers"
    by (simp_all add: message_of_def)
  have 3: "JSON_parse scenario_platform order_fault_payload =
     Some (JObject [(''messageType'', JArray [JString ''urn:message:App:OrderPlaced'']),
                    (''message'', JObject [(''id'', JNumber 1)])])"
    by code_simp
  have 4: "number_is_finite scenario_platform 1"
    and 5: "number_to_string scenario_platform 1 = ''1''"
    by code_simp+
  from order_fault_report [OF 1 2 3 4 5] 1 2 3 4 5 show ?thesis by blast
qed

section \<open>Destination of a republished message\<close>

lemma resolve_destination_address:
  assumes "opt_get (parseEnvelope P (payload msg)) ''destinationAddress'' = Some (JString address)"
    and "address \<noteq> []"
  shows "resolve_destination P errorQueue msg =
     and_then (URL_pathname P address) (\<lambda>pathname.
       let pathParts = filter (\<lambda>part. part \<noteq> []) (split CHR ''/'' pathname);
           targetExchange = (if pathParts = [] then [] else last pathParts)
       in Inr (targetExchange, targetExchange))"
  using assms by (simp add: resolve_destination_def Let_def template_def and_then_def)

lemma resolve_destination_fallback:
  assumes "\<not> truthy_opt P (opt_get (parseEnvelope P (payload msg)) ''destinationAddress'')"
  shows "resolve_destination P errorQueue msg =
     Inr (getSourceQueue errorQueue, getSourceQueue errorQueue)"
  using assms by (simp add: resolve_destination_def Let_def)

lemma republish_loop_publish:
  assumes "resolve_destination P errorQueue msg = Inr (targetExchange, routingKey)"
  shows "republish_loop P B errorQueue vhost (msg # msgs) republished errors s =
     (case publishMessage B targetExchange routingKey (payload msg)
             (forwarded_properties msg) vhost s of
        (Inl err, s') \<Rightarrow>
          republish_loop P B errorQueue vhost msgs republished
            (errors @ [error_entry republished err]) s'
      | (Inr routed, s') \<Rightarrow>
          republish_loop P B errorQueue vhost msgs (republished + 1) errors s')"
  using assms by simp

lemma republish_loop_unresolved:
  assumes "resolve_destination P errorQueue msg = Inl err"
  shows "republish_loop P B errorQueue vhost (msg # msgs) republished errors s =
     republish_loop P B errorQueue vhost msgs republished
       (errors @ [error_entry republished err]) s"
  using assms by simp

text \<open>
  C3. In the commit phase, a message whose envelope has a \<open>destinationAddress\<close> that is a
  URI with a non-empty path segment is published to the exchange named by the last
  non-empty segment of the path, with that same name as routing key; a message with no
  \<open>destinationAddress\<close> (or no envelope at all) is published with the source queue of the
  error queue as exchange and as routing key. The third part ties the resolved pair to the
  request the loop sends. (A URI with no non-empty path segment resolves to the empty
  name; the claim does not speak of it.)
\<close>

theorem destination_resolution:
  "(opt_get (parseEnvelope P (payload msg)) ''destinationAddress'' = Some (JString address) \<and>
    address \<noteq> [] \<and> URL_pathname P address = Inr pathname \<and>
    filter (\<lambda>part. part \<noteq> []) (split CHR ''/'' pathname) \<noteq> [] \<longrightarrow>
      resolve_destination P errorQueue msg =
        Inr (last (filter (\<lambda>part. part \<noteq> []) (split CHR ''/'' pathname)),
             last (filter (\<lambda>part. part \<noteq> []) (split CHR ''/'' pathname)))) \<and>
   (opt_get (parseEnvelope P (payload msg)) ''destinationAddress'' = None \<longrightarrow>
      resolve_destination P errorQueue msg =
        Inr (getSourceQueue errorQueue, getSourceQueue errorQueue)) \<and>
   (resolve_destination P errorQueue msg = Inr (targetExchange, routingKey) \<longrightarrow>
      (\<exists>r. snd (snd (republish_loop P (logged B) errorQueue vhost [msg] n errs (s, []))) =
             [Publish r] \<and>
           pr_exchange r = targetExchange \<and> pr_routing_key r = routingKey \<and>
           pr_payload r = payload msg))"
proof (intro conjI impI)
  assume a: "opt_get (parseEnvelope P (payload msg)) ''destinationAddress'' = Some (JString address) \<and>
    address \<noteq> [] \<and> URL_pathname P address = Inr pathname \<and>
    filter (\<lambda>part. part \<noteq> []) (split CHR ''/'' pathname) \<noteq> []"
  then show "resolve_destination P errorQueue msg =
        Inr (last (filter (\<lambda>part. part \<noteq> []) (split CHR ''/'' pathname)),
             last (filter (\<lambda>part. part \<noteq> []) (split CHR ''/'' pathname)))"
    using resolve_destination_address [of P msg address errorQueue]
    by (simp add: and_then_def Let_def)
next
  assume "opt_get (parseEnvelope P (payload msg)) ''destinationAddress'' = None"
  then show "resolve_destination P errorQueue msg =
        Inr (getSourceQueue errorQueue, getSourceQueue errorQueue)"
    using resolve_destination_fallback [of P msg errorQueue] by simp
next
  assume r: "resolve_destination P errorQueue msg = Inr (targetExchange, routingKey)"
  show "\<exists>r. snd (snd (republish_loop P (logged B) errorQueue vhost [msg] n errs (s, []))) =
             [Publish r] \<and>
           pr_exchange r = targetExchange \<and> pr_routing_key r = routingKey \<and>
           pr_payload r = payload msg"
    using r
    by (cases "publish B \<lparr>
         pr_vhost = vhost, pr_exchange = targetExchange, pr_routing_key = routingKey,
         pr_payload = payload msg, pr_payload_encoding = ''string'', pr_delivery_mode = 2,
         pr_content_type = (case content_type (forwarded_properties msg) of
            None \<Rightarrow> ''application/vnd.masstransit+json'' | Some c \<Rightarrow> c),
         pr_headers = headers (forwarded_properties msg),
         pr_message_id = message_id (forwarded_properties msg) \<rparr> s")
      (auto simp: publishMessage_def logged_def split: sum.splits prod.splits)
qed

lemma address_payload_envelope:
  "parseEnvelope scenario_platform address_payload =
     Some (JObject [(''messageId'', JString ''m-1''),
                    (''destinationAddress'', JString ''proto://host/vhost/orders-exchange''),
                    (''message'', JObject [(''id'', JNumber 1)])])"
  by code_simp

lemma plain_payload_envelope:
  "parseEnvelope scenario_platform plain_payload =
     Some (JObject [(''messageId'', JString ''m-2''), (''message'', JObject [(''id'', JNumber 2)])])"
  by code_simp

lemma orders_exchange_pathname:
  "URL_pathname scenario_platform ''proto://host/vhost/orders-exchange'' =
     Inr ''/vhost/orders-exchange''"
  by code_simp

lemma orders_exchange_segments:
  "filter (\<lambda>part. part \<noteq> []) (split CHR ''/'' ''/vhost/orders-exchange'') =
     [''vhost'', ''orders-exchange'']"
  by code_simp

theorem destination_resolution_witness:
  "resolve_destination scenario_platform ''orders_error''
       (message_of address_payload None) =
     Inr (''orders-exchange'', ''orders-exchange'') \<and>
   resolve_destination scenario_platform ''orders_error''
       (message_of plain_payload None) =
     Inr (''orders'', ''orders'') \<and>
   (\<exists>r. snd (snd (republish_loop scenario_platform (logged scenario_broker) ''orders_error'' None
                    [message_of address_payload None] 0 []
                    (orders_broker [], []))) = [Publish r] \<and>
        pr_exchange r = ''orders-exchange'' \<and> pr_routing_key r = ''orders-exchange'' \<and>
        pr_payload r = address_payload)"
proof -
  let ?a = "message_of address_payload None :: int PeekedMessage"
  let ?p = "message_of plain_payload None :: int PeekedMessage"
  have pa: "payload ?a = address_payload" and pp: "payload ?p = plain_payload"
    by (simp_all add: message_of_def)
  have 1: "opt_get (parseEnvelope scenario_platform (payload ?a)) ''destinationAddress'' =
             Some (JString ''proto://host/vhost/orders-exchange'') \<and>
           ''proto://host/vhost/orders-exchange'' \<noteq> [] \<and>
           URL_pathname scenario_platform ''proto://host/vhost/orders-exchange'' =
             Inr ''/vhost/orders-exchange'' \<and>
           filter (\<lambda>part. part \<noteq> []) (split CHR ''/'' ''/vhost/orders-exchange'') \<noteq> []"
    by (simp add: pa address_payload_envelope orders_exchange_pathname orders_exchange_segments)
  have 2: "opt_get (parseEnvelope scenario_platform (payload ?p)) ''destinationAddress'' = None"
    by (simp add: pp plain_payload_envelope)
  have "resolve_destination scenario_platform ''orders_error'' ?a =
     Inr (last (filter (\<lambda>part. part \<noteq> []) (split CHR ''/'' ''/vhost/orders-exchange'')),
          last (filter (\<lambda>part. part \<noteq> []) (split CHR ''/'' ''/vhost/orders-exchange'')))"
    using destination_resolution
      [where P = scenario_platform and msg = ?a and errorQueue = "''orders_error''"
         and address = "''proto://host/vhost/orders-exchange''"
         and pathname = "''/vhost/orders-exchange''", THEN conjunct1] 1
    by blast
  then have a: "resolve_destination scenario_platform ''orders_error'' ?a =
     Inr (''orders-exchange'', ''orders-exchange'')"
    by (simp add: orders_exchange_segments)
  have s: "getSourceQueue ''orders_error'' = ''orders''"
    by code_simp
  have b: "resolve_destination scenario_platform ''orders_error'' ?p = Inr (''orders'', ''orders'')"
    using destination_resolution
      [where P = scenario_platform and msg = ?p and errorQueue = "''orders_error''",
       THEN conjunct2, THEN conjunct1] 2
    by (simp add: s)
  have c: "\<exists>r. snd (snd (republish_loop scenario_platform (logged scenario_broker) ''orders_error''
                    None [?a] 0 [] (orders_broker [], []))) = [Publish r] \<and>
        pr_exchange r = ''orders-exchange'' \<and> pr_routing_key r = ''orders-exchange'' \<and>
        pr_payload r = address_payload"
    using destination_resolution
      [where P = scenario_platform and msg = ?a and errorQueue = "''orders_error''"
         and targetExchange = "''orders-exchange''" and routingKey = "''orders-exchange''"
         and B = scenario_broker and vhost = None and n = 0 and errs = "[]"
         and s = "orders_broker []", THEN conjunct2, THEN conjunct2] a pa
    by simp
  from a b c show ?thesis by blast
qed

section \<open>A destination address that is not a URI\<close>

lemma show_nat_0 [simp]: "show_nat 0 = ''0''"
  by code_simp

lemma show_nat_2 [simp]: "show_nat 2 = ''2''" "show_nat (Suc (Suc 0)) = ''2''"
  by code_simp+

text \<open>
  C4, as the code has it. The constructor \<open>new URL\<close> stands inside the \<open>try\<close> block of the
  loop, so a \<open>destinationAddress\<close> that does not parse as a URI throws into the \<open>catch\<close>:
  the message is not published anywhere, the error is recorded as
  \<open>Message k: <error message>\<close>, and the loop goes on with the remaining messages. The
  source queue is the destination only of a message with no \<open>destinationAddress\<close>.
\<close>

theorem malformed_destination_skips_message:
  assumes "opt_get (parseEnvelope P (payload msg)) ''destinationAddress'' = Some (JString address)"
    and "address \<noteq> []"
    and "URL_pathname P address = Inl err"
  shows "resolve_destination P errorQueue msg = Inl err \<and>
     republish_loop P B errorQueue vhost (msg # msgs) republished errors s =
       republish_loop P B errorQueue vhost msgs republished
         (errors @ [''Message '' @ show_nat (republished + 1) @ '': '' @ error_message err]) s"
proof -
  have r: "resolve_destination P errorQueue msg = Inl err"
    using resolve_destination_address [OF assms(1) assms(2), of errorQueue] assms(3)
    by (simp add: and_then_def)
  from republish_loop_unresolved [OF r] r show ?thesis
    by (simp add: error_entry_def)
qed

lemma malformed_payload_envelope:
  "parseEnvelope scenario_platform malformed_payload =
     Some (JObject [(''messageId'', JString ''m-3''),
                    (''destinationAddress'', JString ''not a uri''),
                    (''message'', JObject [(''id'', JNumber 3)])])"
  by code_simp

lemma malformed_address_rejected:
  "URL_pathname scenario_platform ''not a uri'' = Inl (TypeError ''Invalid URL'')"
  by code_simp

theorem malformed_destination_skips_message_witness:
  "opt_get (parseEnvelope scenario_platform
       (payload (message_of malformed_payload None :: int PeekedMessage)))
       ''destinationAddress'' = Some (JString ''not a uri'') \<and>
   URL_pathname scenario_platform ''not a uri'' = Inl (TypeError ''Invalid URL'') \<and>
   resolve_destination scenario_platform ''orders_error'' (message_of malformed_payload None) =
     Inl (TypeError ''Invalid URL'') \<and>
   republish_loop scenario_platform scenario_broker ''orders_error'' None
       [message_of malformed_payload None, message_of plain_payload None] 0 []
       (orders_broker []) =
     republish_loop scenario_platform scenario_broker ''orders_error'' None
       [message_of plain_payload None] 0 [''Message 1: Invalid URL'']
       (orders_broker [])"
proof -
  let ?m = "message_of malformed_payload None :: int PeekedMessage"
  have 1: "opt_get (parseEnvelope scenario_platform (payload ?m)) ''destinationAddress'' =
             Some (JString ''not a uri'')"
    by (simp add: message_of_def malformed_payload_envelope)
  have 2: "''not a uri'' \<noteq> []"
    by simp
  have 3: "[] @ [''Message '' @ show_nat (0 + 1) @ '': '' @
                  error_message (TypeError ''Invalid URL'')] = [''Message 1: Invalid URL'']"
    by simp
  from malformed_destination_skips_message
         [OF 1 2 malformed_address_rejected, where errorQueue = "''orders_error''"
            and B = scenario_broker and vhost = None
            and msgs = "[message_of plain_payload None]" and republished = 0
            and errors = "[]" and s = "orders_broker []"]
  have "resolve_destination scenario_platform ''orders_error'' ?m = Inl (TypeError ''Invalid URL'') \<and>
     republish_loop scenario_platform scenario_broker ''orders_error'' None
         [?m, message_of plain_payload None] 0 [] (orders_broker []) =
       republish_loop scenario_platform scenario_broker ''orders_error'' None
         [message_of plain_payload None] 0 [''Message 1: Invalid URL''] (orders_broker [])"
    unfolding 3 .
  note c = this
  show ?thesis
    by (rule conjI [OF 1 conjI [OF malformed_address_rejected c]])
qed

lemma malformed_destination_unresolved:
  "resolve_destination scenario_platform ''orders_error'' (message_of malformed_payload None) =
     Inl (TypeError ''Invalid URL'')"
proof -
  let ?m = "message_of malformed_payload None :: int PeekedMessage"
  have "opt_get (parseEnvelope scenario_platform (payload ?m)) ''destinationAddress'' =
          Some (JString ''not a uri'')"
    by (simp add: message_of_def malformed_payload_envelope)
  from resolve_destination_address [OF this, of "''orders_error''"] show ?thesis
    by (simp add: malformed_address_rejected and_then_def)
qed

theorem malformed_destination_counterexample:
  "fst (republish_from_error scenario_platform scenario_broker ''orders_error'' (Some 1)
          (Some True) None (orders_broker [message_of malformed_payload None])) =
     Inr (''Republished 0/1 message(s) from '' @ [CHR 0x22] @ ''orders_error'' @ [CHR 0x22] @ ''.'' @
          [CHR 0x0A, CHR 0x0A] @ ''Errors:'' @ [CHR 0x0A] @ ''Message 1: Invalid URL'') \<and>
   published (snd (republish_from_error scenario_platform scenario_broker ''orders_error'' (Some 1)
          (Some True) None (orders_broker [message_of malformed_payload None]))) = [] \<and>
   queues (snd (republish_from_error scenario_platform scenario_broker ''orders_error'' (Some 1)
          (Some True) None (orders_broker [message_of malformed_payload None]))) ''orders_error'' = []"
  by (simp add: republish_from_error_def consumeMessages_def scenario_broker_def orders_broker_def
      malformed_destination_unresolved error_entry_def outcome_text_def)


section \<open>A publish that fails\<close>

lemma republish_loop_accounts:
  "republish_loop P B errorQueue vhost msgs republished errors s = ((r', errors'), s') \<Longrightarrow>
   r' + length errors' = republished + length errors + length msgs"
proof (induction msgs arbitrary: republished errors s)
  case Nil
  then show ?case by simp
next
  case (Cons msg msgs)
  show ?case
  proof (cases "resolve_destination P errorQueue msg")
    case (Inl err)
    with Cons.prems have
      "republish_loop P B errorQueue vhost msgs republished
         (errors @ [error_entry republished err]) s = ((r', errors'), s')"
      by simp
    from Cons.IH [OF this] show ?thesis by simp
  next
    case (Inr dest)
    obtain targetExchange routingKey where d: "dest = (targetExchange, routingKey)"
      by (cases dest)
    obtain answer s1 where p:
      "publishMessage B targetExchange routingKey (payload msg) (forwarded_properties msg) vhost s =
         (answer, s1)"
      by (cases "publishMessage B targetExchange routingKey (payload msg)
                   (forwarded_properties msg) vhost s")
    show ?thesis
    proof (cases answer)
      case (Inl err)
      with Cons.prems Inr d p have
        "republish_loop P B errorQueue vhost msgs republished
           (errors @ [error_entry republished err]) s1 = ((r', errors'), s')"
        by simp
      from Cons.IH [OF this] show ?thesis by simp
    next
      case (Inr routed)
      with Cons.prems \<open>resolve_destination P errorQueue msg = Inr dest\<close> d p have
        "republish_loop P B errorQueue vhost msgs (republished + 1) errors s1 =
           ((r', errors'), s')"
        by simp
      from Cons.IH [OF this] show ?thesis by simp
    qed
  qed
qed

text \<open>
  C5. In the commit phase a publish that fails is written, as a string, at the end of the
  list of errors and the loop goes on with the remaining messages, from the broker state
  the failed request left; every message ends either in the count of republished messages
  or in the list of errors; and of two consumed messages of which exactly one publish
  fails, whichever it is, the outcome reads \<open>Republished 1/2\<close> with one error entry.
\<close>

theorem publish_failure_is_recorded:
  "(resolve_destination P errorQueue msg = Inr (targetExchange, routingKey) \<and>
    publishMessage B targetExchange routingKey (payload msg) (forwarded_properties msg) vhost s =
      (Inl err, s1) \<longrightarrow>
      republish_loop P B errorQueue vhost (msg # msgs) republished errors s =
        republish_loop P B errorQueue vhost msgs republished
          (errors @ [''Message '' @ show_nat (republished + 1) @ '': '' @ error_message err]) s1) \<and>
   (republish_loop P B errorQueue vhost msgs republished errors s = ((r', errors'), s') \<longrightarrow>
      r' + length errors' = republished + length errors + length msgs) \<and>
   (consumeMessages B errorQueue (case count of None \<Rightarrow> 1 | Some c \<Rightarrow> c) vhost s0 =
      (Inr [m1, m2], s) \<and>
    resolve_destination P errorQueue m1 = Inr (e1, k1) \<and>
    resolve_destination P errorQueue m2 = Inr (e2, k2) \<and>
    publishMessage B e1 k1 (payload m1) (forwarded_properties m1) vhost s = (Inl err, s1) \<and>
    publishMessage B e2 k2 (payload m2) (forwarded_properties m2) vhost s1 = (Inr routed, s2) \<longrightarrow>
      republish_loop P B errorQueue vhost [m1, m2] 0 [] s =
        ((1, [''Message 1: '' @ error_message err]), s2) \<and>
      republish_from_error P B errorQueue count (Some True) vhost s0 =
        (Inr (''Republished 1/2 message(s) from '' @ [CHR 0x22] @ errorQueue @ [CHR 0x22] @ ''.'' @
              [CHR 0x0A, CHR 0x0A] @ ''Errors:'' @ [CHR 0x0A] @
              ''Message 1: '' @ error_message err), s2)) \<and>
   (consumeMessages B errorQueue (case count of None \<Rightarrow> 1 | Some c \<Rightarrow> c) vhost s0 =
      (Inr [m1, m2], s) \<and>
    resolve_destination P errorQueue m1 = Inr (e1, k1) \<and>
    resolve_destination P errorQueue m2 = Inr (e2, k2) \<and>
    publishMessage B e1 k1 (payload m1) (forwarded_properties m1) vhost s = (Inr routed, s1) \<and>
    publishMessage B e2 k2 (payload m2) (forwarded_properties m2) vhost s1 = (Inl err, s2) \<longrightarrow>
      republish_loop P B errorQueue vhost [m1, m2] 0 [] s =
        ((1, [''Message 2: '' @ error_message err]), s2) \<and>
      republish_from_error P B errorQueue count (Some True) vhost s0 =
        (Inr (''Republished 1/2 message(s) from '' @ [CHR 0x22] @ errorQueue @ [CHR 0x22] @ ''.'' @
              [CHR 0x0A, CHR 0x0A] @ ''Errors:'' @ [CHR 0x0A] @
              ''Message 2: '' @ error_message err), s2))"
proof (intro conjI impI)
  assume "resolve_destination P errorQueue msg = Inr (targetExchange, routingKey) \<and>
    publishMessage B targetExchange routingKey (payload msg) (forwarded_properties msg) vhost s =
      (Inl err, s1)"
  then show "republish_loop P B errorQueue vhost (msg # msgs) republished errors s =
        republish_loop P B errorQueue vhost msgs republished
          (errors @ [''Message '' @ show_nat (republished + 1) @ '': '' @ error_message err]) s1"
    by (simp add: error_entry_def)
next
  assume "republish_loop P B errorQueue vhost msgs republished errors s = ((r', errors'), s')"
  then show "r' + length errors' = republished + length errors + length msgs"
    by (rule republish_loop_accounts)
next
  assume a: "consumeMessages B errorQueue (case count of None \<Rightarrow> 1 | Some c \<Rightarrow> c) vhost s0 =
      (Inr [m1, m2], s) \<and>
    resolve_destination P errorQueue m1 = Inr (e1, k1) \<and>
    resolve_destination P errorQueue m2 = Inr (e2, k2) \<and>
    publishMessage B e1 k1 (payload m1) (forwarded_properties m1) vhost s = (Inl err, s1) \<and>
    publishMessage B e2 k2 (payload m2) (forwarded_properties m2) vhost s1 = (Inr routed, s2)"
  then show l: "republish_loop P B errorQueue vhost [m1, m2] 0 [] s =
        ((1, [''Message 1: '' @ error_message err]), s2)"
    by (simp add: error_entry_def)
  from a l show "republish_from_error P B errorQueue count (Some True) vhost s0 =
        (Inr (''Republished 1/2 message(s) from '' @ [CHR 0x22] @ errorQueue @ [CHR 0x22] @ ''.'' @
              [CHR 0x0A, CHR 0x0A] @ ''Errors:'' @ [CHR 0x0A] @
              ''Message 1: '' @ error_message err), s2)"
    by (simp add: republish_from_error_def outcome_text_def)
next
  assume a: "consumeMessages B errorQueue (case count of None \<Rightarrow> 1 | Some c \<Rightarrow> c) vhost s0 =
      (Inr [m1, m2], s) \<and>
    resolve_destination P errorQueue m1 = Inr (e1, k1) \<and>
    resolve_destination P errorQueue m2 = Inr (e2, k2) \<and>
    publishMessage B e1 k1 (payload m1) (forwarded_properties m1) vhost s = (Inr routed, s1) \<and>
    publishMessage B e2 k2 (payload m2) (forwarded_properties m2) vhost s1 = (Inl err, s2)"
  from a show l: "republish_loop P B errorQueue vhost [m1, m2] 0 [] s =
        ((1, [''Message 2: '' @ error_message err]), s2)"
    by (simp add: error_entry_def)
  from a l show "republish_from_error P B errorQueue count (Some True) vhost s0 =
        (Inr (''Republished 1/2 message(s) from '' @ [CHR 0x22] @ errorQueue @ [CHR 0x22] @ ''.'' @
              [CHR 0x0A, CHR 0x0A] @ ''Errors:'' @ [CHR 0x0A] @
              ''Message 2: '' @ error_message err), s2)"
    by (simp add: republish_from_error_def outcome_text_def)
qed

lemma address_message_destination:
  "resolve_destination scenario_platform ''orders_error'' (message_of address_payload None) =
     Inr (''orders-exchange'', ''orders-exchange'')"
proof -
  let ?m = "message_of address_payload None :: int PeekedMessage"
  have "opt_get (parseEnvelope scenario_platform (payload ?m)) ''destinationAddress'' =
          Some (JString ''proto://host/vhost/orders-exchange'')"
    by (simp add: message_of_def address_payload_envelope)
  from resolve_destination_address [OF this, of "''orders_error''"] show ?thesis
    by (simp add: orders_exchange_pathname and_then_def orders_exchange_segments Let_def)
qed

lemma missing_exchange_payload_envelope:
  "parseEnvelope scenario_platform missing_exchange_payload =
     Some (JObject [(''messageId'', JString ''m-4''),
                    (''destinationAddress'', JString ''proto://host/vhost/no-such-exchange''),
                    (''message'', JObject [(''id'', JNumber 4)])])"
  by code_simp

lemma no_such_exchange_pathname:
  "URL_pathname scenario_platform ''proto://host/vhost/no-such-exchange'' =
     Inr ''/vhost/no-such-exchange''"
  by code_simp

lemma no_such_exchange_segments:
  "filter (\<lambda>part. part \<noteq> []) (split CHR ''/'' ''/vhost/no-such-exchange'') =
     [''vhost'', ''no-such-exchange'']"
  by code_simp

lemma missing_message_destination:
  "resolve_destination scenario_platform ''orders_error''
       (message_of missing_exchange_payload None) =
     Inr (''no-such-exchange'', ''no-such-exchange'')"
proof -
  let ?m = "message_of missing_exchange_payload None :: int PeekedMessage"
  have "opt_get (parseEnvelope scenario_platform (payload ?m)) ''destinationAddress'' =
          Some (JString ''proto://host/vhost/no-such-exchange'')"
    by (simp add: message_of_def missing_exchange_payload_envelope)
  from resolve_destination_address [OF this, of "''orders_error''"] show ?thesis
    by (simp add: no_such_exchange_pathname and_then_def no_such_exchange_segments Let_def)
qed

theorem publish_failure_is_recorded_witness:
  "fst (republish_from_error scenario_platform scenario_broker ''orders_error'' (Some 2)
          (Some True) None
          (orders_broker [message_of missing_exchange_payload None,
                          message_of address_payload None])) =
     Inr (''Republished 1/2 message(s) from '' @ [CHR 0x22] @ ''orders_error'' @ [CHR 0x22] @ ''.'' @
          [CHR 0x0A, CHR 0x0A] @ ''Errors:'' @ [CHR 0x0A] @
          ''Message 1: RabbitMQ API error: 404 Not Found'') \<and>
   fst (republish_from_error scenario_platform scenario_broker ''orders_error'' (Some 2)
          (Some True) None
          (orders_broker [message_of address_payload None,
                          message_of missing_exchange_payload None])) =
     Inr (''Republished 1/2 message(s) from '' @ [CHR 0x22] @ ''orders_error'' @ [CHR 0x22] @ ''.'' @
          [CHR 0x0A, CHR 0x0A] @ ''Errors:'' @ [CHR 0x0A] @
          ''Message 2: RabbitMQ API error: 404 Not Found'') \<and>
   fst (republish_loop scenario_platform scenario_broker ''orders_error'' None
          [message_of missing_exchange_payload None, message_of address_payload None] 0 []
          (orders_broker [])) =
     (1, [''Message 1: RabbitMQ API error: 404 Not Found''])"
proof -
  let ?mm = "message_of missing_exchange_payload None :: int PeekedMessage"
  let ?ma = "message_of address_payload None :: int PeekedMessage"
  let ?B = "scenario_broker :: (int broker_state, int) broker"
  let ?e = "Error ''RabbitMQ API error: 404 Not Found''"
  \<comment> \<open>the failing message first\<close>
  let ?initA = "orders_broker [?mm, ?ma]"
  let ?consumedA = "snd (consumeMessages ?B ''orders_error'' 2 None ?initA)"
  have c: "consumeMessages ?B ''orders_error'' (case Some 2 of None \<Rightarrow> 1 | Some c \<Rightarrow> c) None ?initA =
             (Inr [?mm, ?ma], ?consumedA)"
    by (simp add: consumeMessages_def scenario_broker_def orders_broker_def)
  have x: "exchanges ?consumedA = [''orders'', ''orders-exchange'']"
    by (simp add: consumeMessages_def scenario_broker_def orders_broker_def)
  have p1: "publishMessage ?B ''no-such-exchange'' ''no-such-exchange'' (payload ?mm)
              (forwarded_properties ?mm) None ?consumedA = (Inl ?e, ?consumedA)"
    using x by (simp add: publishMessage_def scenario_broker_def)
  let ?finalA = "snd (publishMessage ?B ''orders-exchange'' ''orders-exchange'' (payload ?ma)
                    (forwarded_properties ?ma) None ?consumedA)"
  have p2: "publishMessage ?B ''orders-exchange'' ''orders-exchange'' (payload ?ma)
              (forwarded_properties ?ma) None ?consumedA = (Inr True, ?finalA)"
    using x by (simp add: publishMessage_def scenario_broker_def)
  from publish_failure_is_recorded
         [where P = scenario_platform and B = ?B and errorQueue = "''orders_error''"
            and count = "Some 2" and vhost = None and ?s0.0 = ?initA and s = ?consumedA
            and ?m1.0 = ?mm and ?m2.0 = ?ma and ?e1.0 = "''no-such-exchange''"
            and ?k1.0 = "''no-such-exchange''" and ?e2.0 = "''orders-exchange''"
            and ?k2.0 = "''orders-exchange''" and err = ?e and ?s1.0 = ?consumedA and routed = True
            and ?s2.0 = ?finalA, THEN conjunct2, THEN conjunct2, THEN conjunct1]
       c missing_message_destination address_message_destination p1 p2
  have a: "republish_from_error scenario_platform ?B ''orders_error'' (Some 2) (Some True) None ?initA =
        (Inr (''Republished 1/2 message(s) from '' @ [CHR 0x22] @ ''orders_error'' @ [CHR 0x22] @
              ''.'' @ [CHR 0x0A, CHR 0x0A] @ ''Errors:'' @ [CHR 0x0A] @
              ''Message 1: '' @ error_message ?e), ?finalA)"
    by blast
  \<comment> \<open>the failing message second\<close>
  let ?initB = "orders_broker [?ma, ?mm]"
  let ?consumedB = "snd (consumeMessages ?B ''orders_error'' 2 None ?initB)"
  have c': "consumeMessages ?B ''orders_error'' (case Some 2 of None \<Rightarrow> 1 | Some c \<Rightarrow> c) None ?initB =
             (Inr [?ma, ?mm], ?consumedB)"
    by (simp add: consumeMessages_def scenario_broker_def orders_broker_def)
  have x': "exchanges ?consumedB = [''orders'', ''orders-exchange'']"
    by (simp add: consumeMessages_def scenario_broker_def orders_broker_def)
  let ?midB = "snd (publishMessage ?B ''orders-exchange'' ''orders-exchange'' (payload ?ma)
                    (forwarded_properties ?ma) None ?consumedB)"
  have q1: "publishMessage ?B ''orders-exchange'' ''orders-exchange'' (payload ?ma)
              (forwarded_properties ?ma) None ?consumedB = (Inr True, ?midB)"
    using x' by (simp add: publishMessage_def scenario_broker_def)
  have x1: "exchanges ?midB = [''orders'', ''orders-exchange'']"
    using x' by (simp add: publishMessage_def scenario_broker_def)
  have q2: "publishMessage ?B ''no-such-exchange'' ''no-such-exchange'' (payload ?mm)
              (forwarded_properties ?mm) None ?midB = (Inl ?e, ?midB)"
    using x1 by (simp add: publishMessage_def scenario_broker_def)
  from publish_failure_is_recorded
         [where P = scenario_platform and B = ?B and errorQueue = "''orders_error''"
            and count = "Some 2" and vhost = None and ?s0.0 = ?initB and s = ?consumedB
            and ?m1.0 = ?ma and ?m2.0 = ?mm and ?e2.0 = "''no-such-exchange''"
            and ?k2.0 = "''no-such-exchange''" and ?e1.0 = "''orders-exchange''"
            and ?k1.0 = "''orders-exchange''" and err = ?e and ?s1.0 = ?midB and routed = True
            and ?s2.0 = ?midB, THEN conjunct2, THEN conjunct2, THEN conjunct2]
       c' missing_message_destination address_message_destination q1 q2
  have b: "republish_from_error scenario_platform ?B ''orders_error'' (Some 2) (Some True) None ?initB =
        (Inr (''Republished 1/2 message(s) from '' @ [CHR 0x22] @ ''orders_error'' @ [CHR 0x22] @
              ''.'' @ [CHR 0x0A, CHR 0x0A] @ ''Errors:'' @ [CHR 0x0A] @
              ''Message 2: '' @ error_message ?e), ?midB)"
    by blast
  \<comment> \<open>one step of the loop, from a broker whose queue is already empty\<close>
  let ?emptied = "orders_broker [] :: int broker_state"
  have r1: "publishMessage ?B ''no-such-exchange'' ''no-such-exchange'' (payload ?mm)
              (forwarded_properties ?mm) None ?emptied = (Inl ?e, ?emptied)"
    by (simp add: publishMessage_def scenario_broker_def orders_broker_def)
  from publish_failure_is_recorded
         [where P = scenario_platform and B = ?B and errorQueue = "''orders_error''"
            and vhost = None and msg = ?mm and msgs = "[?ma]" and republished = 0
            and errors = "[]" and s = ?emptied and ?s1.0 = ?emptied and err = ?e
            and targetExchange = "''no-such-exchange''" and routingKey = "''no-such-exchange''",
          THEN conjunct1]
       missing_message_destination r1
  have l1: "republish_loop scenario_platform ?B ''orders_error'' None [?mm, ?ma] 0 [] ?emptied =
     republish_loop scenario_platform ?B ''orders_error'' None [?ma] 0
       ([] @ [''Message '' @ show_nat (0 + 1) @ '': '' @ error_message ?e]) ?emptied"
    by blast
  have l2: "fst (republish_loop scenario_platform ?B ''orders_error'' None [?ma] 0
       ([] @ [''Message '' @ show_nat (0 + 1) @ '': '' @ error_message ?e]) ?emptied) =
     (1, [''Message 1: RabbitMQ API error: 404 Not Found''])"
    by (simp add: address_message_destination publishMessage_def scenario_broker_def
        orders_broker_def)
  from a b l1 l2 show ?thesis by simp
qed

section \<open>The two phases of \<open>republish_from_error\<close>\<close>

lemma preview_lines_texts:
  "length texts = length messages \<Longrightarrow>
   (\<forall>i < length messages. formatFaultMessage P (messages ! i) (k + i) = Inr (texts ! i)) \<Longrightarrow>
   preview_lines P messages k = Inr (concat (map (\<lambda>t. [t, '''']) texts))"
proof (induction messages arbitrary: k texts)
  case Nil
  then show ?case by simp
next
  case (Cons m ms)
  then obtain t ts where t: "texts = t # ts"
    by (cases texts) auto
  from Cons.prems t have len: "length ts = length ms"
    by simp
  from Cons.prems(2) t have hd: "formatFaultMessage P m k = Inr t"
    by force
  have "\<forall>i < length ms. formatFaultMessage P (ms ! i) (Suc k + i) = Inr (ts ! i)"
  proof (intro allI impI)
    fix i assume "i < length ms"
    then have "Suc i < length (m # ms)" by simp
    with Cons.prems(2) have "formatFaultMessage P ((m # ms) ! Suc i) (k + Suc i) = Inr (texts ! Suc i)"
      by blast
    with t show "formatFaultMessage P (ms ! i) (Suc k + i) = Inr (ts ! i)" by simp
  qed
  from Cons.IH [OF len this] hd t show ?case
    by (simp add: and_then_def)
qed

lemma publishMessage_logged:
  "publishMessage (logged B) exch routingKey text props vhost (s, log) =
     (fst (publishMessage B exch routingKey text props vhost s),
      snd (publishMessage B exch routingKey text props vhost s),
      log @ [Publish \<lparr>
        pr_vhost = vhost, pr_exchange = exch, pr_routing_key = routingKey, pr_payload = text,
        pr_payload_encoding = ''string'', pr_delivery_mode = 2,
        pr_content_type = (case content_type props of
           None \<Rightarrow> ''application/vnd.masstransit+json'' | Some c \<Rightarrow> c),
        pr_headers = headers props, pr_message_id = message_id props \<rparr>])"
  by (simp add: publishMessage_def logged_def split: prod.splits)

lemma logged_loop_log:
  "\<exists>pubs. snd (snd (republish_loop P (logged B) errorQueue vhost msgs republished errors (s, log))) =
     log @ map Publish pubs"
proof (induction msgs arbitrary: republished errors s log)
  case Nil
  have "log = log @ map Publish []" by simp
  then show ?case by auto
next
  case (Cons msg msgs)
  show ?case
  proof (cases "resolve_destination P errorQueue msg")
    case (Inl err)
    then show ?thesis using Cons.IH by simp
  next
    case (Inr dest)
    obtain targetExchange routingKey where d: "dest = (targetExchange, routingKey)"
      by (cases dest)
    let ?r = "\<lparr>
        pr_vhost = vhost, pr_exchange = targetExchange, pr_routing_key = routingKey,
        pr_payload = payload msg,
        pr_payload_encoding = ''string'', pr_delivery_mode = 2,
        pr_content_type = (case content_type (forwarded_properties msg) of
           None \<Rightarrow> ''application/vnd.masstransit+json'' | Some c \<Rightarrow> c),
        pr_headers = headers (forwarded_properties msg),
        pr_message_id = message_id (forwarded_properties msg) \<rparr>"
    let ?a = "fst (publishMessage B targetExchange routingKey (payload msg)
                     (forwarded_properties msg) vhost s)"
    let ?t = "snd (publishMessage B targetExchange routingKey (payload msg)
                     (forwarded_properties msg) vhost s)"
    have step: "publishMessage (logged B) targetExchange routingKey (payload msg)
                  (forwarded_properties msg) vhost (s, log) = (?a, ?t, log @ [Publish ?r])"
      by (rule publishMessage_logged)
    show ?thesis
    proof (cases ?a)
      case (Inl err)
      from Cons.IH [of republished "errors @ [error_entry republished err]" ?t
                       "log @ [Publish ?r]"]
      obtain pubs where
        "snd (snd (republish_loop P (logged B) errorQueue vhost msgs republished
                     (errors @ [error_entry republished err]) (?t, log @ [Publish ?r]))) =
           (log @ [Publish ?r]) @ map Publish pubs"
        by blast
      then have
        "snd (snd (republish_loop P (logged B) errorQueue vhost (msg # msgs) republished errors
                     (s, log))) = log @ map Publish (?r # pubs)"
        using \<open>resolve_destination P errorQueue msg = Inr dest\<close> d step Inl by simp
      then show ?thesis by blast
    next
      case (Inr routed)
      from Cons.IH [of "republished + 1" errors ?t "log @ [Publish ?r]"]
      obtain pubs where
        "snd (snd (republish_loop P (logged B) errorQueue vhost msgs (republished + 1) errors
                     (?t, log @ [Publish ?r]))) =
           (log @ [Publish ?r]) @ map Publish pubs"
        by blast
      then have
        "snd (snd (republish_loop P (logged B) errorQueue vhost (msg # msgs) republished errors
                     (s, log))) = log @ map Publish (?r # pubs)"
        using \<open>resolve_destination P errorQueue msg = Inr dest\<close> d step Inr by simp
      then show ?thesis by blast
    qed
  qed
qed

lemma scenario_loop_keeps_queues:
  "queues (snd (republish_loop P scenario_broker errorQueue vhost msgs republished errors t)) =
     queues t"
proof (induction msgs arbitrary: republished errors t)
  case Nil
  then show ?case by simp
next
  case (Cons msg msgs)
  show ?case
  proof (cases "resolve_destination P errorQueue msg")
    case (Inl err)
    then show ?thesis using Cons.IH by simp
  next
    case (Inr dest)
    obtain targetExchange routingKey where d: "dest = (targetExchange, routingKey)"
      by (cases dest)
    show ?thesis
    proof (cases "targetExchange \<in> set (exchanges t)")
      case True
      then show ?thesis
        using Inr d Cons.IH by (simp add: publishMessage_def scenario_broker_def)
    next
      case False
      then show ?thesis
        using Inr d Cons.IH by (simp add: publishMessage_def scenario_broker_def)
    qed
  qed
qed

lemma order_fault_message_text:
  "formatFaultMessage scenario_platform (message_of order_fault_payload (Some order_fault_headers)) 0 =
     Inr (join [CHR 0x0A]
       [''Message 1:'',
        ''  Faulted: unknown'',
        ''  Reason: fault'',
        ''  Message Type: App.OrderPlaced'',
        ''  Exception: System.InvalidOperationException - '' @ [CHR 0x22] @ ''bad state'' @ [CHR 0x22],
        ''  Retry Count: 3'',
        ''  Original Payload: {'' @ [CHR 0x0A] @
          ''  '' @ [CHR 0x22] @ ''id'' @ [CHR 0x22] @ '': 1'' @ [CHR 0x0A] @ ''}'',
        ''  Source Host: unknown / unknown (PID ?)''])"
  by code_simp

text \<open>
  C2, as the code has it. With \<open>confirm\<close> absent or false the tool sends the broker one
  request, a fetch with ack mode \<open>ack_requeue_true\<close>, and nothing else; a broker that
  requeues on such a read is left as it was. When the fetch returns messages that all
  format, the text returned is the preview header, the formatted messages each followed
  by an empty line, a rule, and the instruction to call again with \<open>confirm=true\<close> and
  \<open>count\<close> equal to the number of messages previewed, which is the count asked for
  only if the queue held that many. With \<open>confirm=true\<close> the first request is the fetch
  with ack mode \<open>ack_requeue_false\<close>, every later one is a publish, and a broker that
  acknowledges on such a read has lost the messages fetched.
\<close>

theorem preview_then_commit:
  "(confirm \<noteq> Some True \<longrightarrow>
      snd (republish_from_error P (logged B) errorQueue count confirm vhost (s, [])) =
        (snd (get_messages B \<lparr>
                gr_vhost = vhost, gr_queue = errorQueue,
                gr_count = (case count of None \<Rightarrow> 1 | Some c \<Rightarrow> c),
                gr_ackmode = ''ack_requeue_true'', gr_encoding = ''auto'',
                gr_truncate = 50000 \<rparr> s),
         [Get \<lparr>
            gr_vhost = vhost, gr_queue = errorQueue,
            gr_count = (case count of None \<Rightarrow> 1 | Some c \<Rightarrow> c),
            gr_ackmode = ''ack_requeue_true'', gr_encoding = ''auto'',
            gr_truncate = 50000 \<rparr>])) \<and>
   (confirm \<noteq> Some True \<longrightarrow>
      snd (republish_from_error P scenario_broker errorQueue count confirm vhost t) = t) \<and>
   (confirm \<noteq> Some True \<and>
    fst (get_messages B \<lparr>
           gr_vhost = vhost, gr_queue = errorQueue,
           gr_count = (case count of None \<Rightarrow> 1 | Some c \<Rightarrow> c),
           gr_ackmode = ''ack_requeue_true'', gr_encoding = ''auto'',
           gr_truncate = 50000 \<rparr> s) = Inr messages \<and>
    messages \<noteq> [] \<and> length texts = length messages \<and>
    (\<forall>i < length messages. formatFaultMessage P (messages ! i) i = Inr (texts ! i)) \<longrightarrow>
      fst (republish_from_error P B errorQueue count confirm vhost s) =
        Inr (join [CHR 0x0A]
          ([''Preview: '' @ show_nat (length messages) @ '' message(s) from '' @ [CHR 0x22] @
            errorQueue @ [CHR 0x22] @ '' ready to republish:'' @ [CHR 0x0A]] @
           concat (map (\<lambda>t. [t, '''']) texts) @
           [''---'',
            ''To republish these messages, call again with confirm=true and count='' @
            show_nat (length messages) @ ''.'']))) \<and>
   (confirm = Some True \<longrightarrow>
      (\<exists>pubs. snd (snd (republish_from_error P (logged B) errorQueue count confirm vhost (s, []))) =
         Get \<lparr>
           gr_vhost = vhost, gr_queue = errorQueue,
           gr_count = (case count of None \<Rightarrow> 1 | Some c \<Rightarrow> c),
           gr_ackmode = ''ack_requeue_false'', gr_encoding = ''auto'',
           gr_truncate = 50000 \<rparr> # map Publish pubs)) \<and>
   (confirm = Some True \<longrightarrow>
      queues (snd (republish_from_error P scenario_broker errorQueue count confirm vhost t))
          errorQueue =
        drop (case count of None \<Rightarrow> 1 | Some c \<Rightarrow> c) (queues t errorQueue))"
proof (intro conjI impI)
  let ?n = "case count of None \<Rightarrow> 1 | Some c \<Rightarrow> c"
  let ?peek = "\<lparr> gr_vhost = vhost, gr_queue = errorQueue, gr_count = ?n,
                 gr_ackmode = ''ack_requeue_true'', gr_encoding = ''auto'',
                 gr_truncate = 50000 \<rparr>"
  let ?consume = "\<lparr> gr_vhost = vhost, gr_queue = errorQueue, gr_count = ?n,
                    gr_ackmode = ''ack_requeue_false'', gr_encoding = ''auto'',
                    gr_truncate = 50000 \<rparr>"
  {
    assume c: "confirm \<noteq> Some True"
    then have nc: "\<not> (case confirm of None \<Rightarrow> False | Some c \<Rightarrow> c)"
      by (cases confirm) auto
    obtain answer s' where g: "get_messages B ?peek s = (answer, s')"
      by (cases "get_messages B ?peek s")
    then have "peekMessages (logged B) errorQueue ?n vhost None (s, []) =
                 (answer, s', [Get ?peek])"
      by (simp add: peekMessages_def logged_def)
    then show "snd (republish_from_error P (logged B) errorQueue count confirm vhost (s, [])) =
                 (snd (get_messages B ?peek s), [Get ?peek])"
      using nc g by (cases answer) (simp_all add: republish_from_error_def)
  }
  {
    assume c: "confirm \<noteq> Some True"
    then have nc: "\<not> (case confirm of None \<Rightarrow> False | Some c \<Rightarrow> c)"
      by (cases confirm) auto
    have "peekMessages scenario_broker errorQueue ?n vhost None t =
            (Inr (take ?n (queues t errorQueue)), t)"
      by (simp add: peekMessages_def scenario_broker_def)
    then show "snd (republish_from_error P scenario_broker errorQueue count confirm vhost t) = t"
      using nc by (simp add: republish_from_error_def)
  }
  {
    assume a: "confirm \<noteq> Some True \<and>
      fst (get_messages B ?peek s) = Inr messages \<and>
      messages \<noteq> [] \<and> length texts = length messages \<and>
      (\<forall>i < length messages. formatFaultMessage P (messages ! i) i = Inr (texts ! i))"
    then have nc: "\<not> (case confirm of None \<Rightarrow> False | Some c \<Rightarrow> c)"
      by (cases confirm) auto
    from a have p: "peekMessages B errorQueue ?n vhost None s =
                      (Inr messages, snd (get_messages B ?peek s))"
      by (simp add: peekMessages_def prod_eq_iff)
    from a have "preview_lines P messages 0 = Inr (concat (map (\<lambda>t. [t, '''']) texts))"
      using preview_lines_texts [of texts messages P 0] by simp
    then have "preview_text P errorQueue messages =
        Inr (join [CHR 0x0A]
          ([''Preview: '' @ show_nat (length messages) @ '' message(s) from '' @ [CHR 0x22] @
            errorQueue @ [CHR 0x22] @ '' ready to republish:'' @ [CHR 0x0A]] @
           concat (map (\<lambda>t. [t, '''']) texts) @
           [''---'',
            ''To republish these messages, call again with confirm=true and count='' @
            show_nat (length messages) @ ''.'']))"
      by (simp add: preview_text_def and_then_def instruction_def)
    with a nc p show "fst (republish_from_error P B errorQueue count confirm vhost s) =
        Inr (join [CHR 0x0A]
          ([''Preview: '' @ show_nat (length messages) @ '' message(s) from '' @ [CHR 0x22] @
            errorQueue @ [CHR 0x22] @ '' ready to republish:'' @ [CHR 0x0A]] @
           concat (map (\<lambda>t. [t, '''']) texts) @
           [''---'',
            ''To republish these messages, call again with confirm=true and count='' @
            show_nat (length messages) @ ''.'']))"
      by (simp add: republish_from_error_def)
  }
  {
    assume c: "confirm = Some True"
    obtain answer s' where g: "get_messages B ?consume s = (answer, s')"
      by (cases "get_messages B ?consume s")
    then have cm: "consumeMessages (logged B) errorQueue ?n vhost (s, []) =
                 (answer, s', [Get ?consume])"
      by (simp add: consumeMessages_def logged_def)
    show "\<exists>pubs. snd (snd (republish_from_error P (logged B) errorQueue count confirm vhost (s, []))) =
         Get ?consume # map Publish pubs"
    proof (cases answer)
      case (Inl e)
      with c cm have
        "snd (snd (republish_from_error P (logged B) errorQueue count confirm vhost (s, []))) =
           Get ?consume # map Publish []"
        by (simp add: republish_from_error_def)
      then show ?thesis by blast
    next
      case (Inr messages)
      show ?thesis
      proof (cases "messages = []")
        case True
        with c cm Inr have
          "snd (snd (republish_from_error P (logged B) errorQueue count confirm vhost (s, []))) =
             Get ?consume # map Publish []"
          by (simp add: republish_from_error_def)
        then show ?thesis by blast
      next
        case False
        from logged_loop_log [of P B errorQueue vhost messages 0 "[]" s' "[Get ?consume]"]
        obtain pubs where
          "snd (snd (republish_loop P (logged B) errorQueue vhost messages 0 []
                       (s', [Get ?consume]))) = [Get ?consume] @ map Publish pubs"
          by blast
        with c cm Inr False have
          "snd (snd (republish_from_error P (logged B) errorQueue count confirm vhost (s, []))) =
             Get ?consume # map Publish pubs"
          by (auto simp: republish_from_error_def split: prod.splits)
        then show ?thesis by blast
      qed
    qed
  }
  {
    assume c: "confirm = Some True"
    let ?t' = "t\<lparr>queues := (queues t)(errorQueue := drop ?n (queues t errorQueue))\<rparr>"
    have cm: "consumeMessages scenario_broker errorQueue ?n vhost t =
            (Inr (take ?n (queues t errorQueue)), ?t')"
      by (simp add: consumeMessages_def scenario_broker_def)
    have q: "queues ?t' errorQueue = drop ?n (queues t errorQueue)"
      by simp
    show "queues (snd (republish_from_error P scenario_broker errorQueue count confirm vhost t))
          errorQueue = drop ?n (queues t errorQueue)"
    proof (cases "take ?n (queues t errorQueue) = []")
      case True
      with c cm q show ?thesis
        by (simp add: republish_from_error_def)
    next
      case False
      have "queues (snd (republish_loop P scenario_broker errorQueue vhost
                           (take ?n (queues t errorQueue)) 0 [] ?t')) = queues ?t'"
        by (rule scenario_loop_keeps_queues)
      with c cm q False show ?thesis
        by (auto simp: republish_from_error_def split: prod.splits)
    qed
  }
qed

theorem preview_then_commit_witness:
  "snd (republish_from_error scenario_platform (logged scenario_broker) ''orders_error'' (Some 1)
          None None
          (orders_broker [message_of order_fault_payload (Some order_fault_headers)], [])) =
     (orders_broker [message_of order_fault_payload (Some order_fault_headers)],
      [Get \<lparr> gr_vhost = None, gr_queue = ''orders_error'', gr_count = 1,
              gr_ackmode = ''ack_requeue_true'', gr_encoding = ''auto'',
              gr_truncate = 50000 \<rparr>]) \<and>
   snd (republish_from_error scenario_platform scenario_broker ''orders_error'' (Some 1) None None
          (orders_broker [message_of order_fault_payload (Some order_fault_headers)])) =
     orders_broker [message_of order_fault_payload (Some order_fault_headers)] \<and>
   fst (republish_from_error scenario_platform scenario_broker ''orders_error'' (Some 1) None None
          (orders_broker [message_of order_fault_payload (Some order_fault_headers)])) =
     Inr (join [CHR 0x0A]
       [''Preview: 1 message(s) from '' @ [CHR 0x22] @ ''orders_error'' @ [CHR 0x22] @
          '' ready to republish:'' @ [CHR 0x0A],
        join [CHR 0x0A]
          [''Message 1:'',
           ''  Faulted: unknown'',
           ''  Reason: fault'',
           ''  Message Type: App.OrderPlaced'',
           ''  Exception: System.InvalidOperationException - '' @ [CHR 0x22] @ ''bad state'' @
             [CHR 0x22],
           ''  Retry Count: 3'',
           ''  Original Payload: {'' @ [CHR 0x0A] @
             ''  '' @ [CHR 0x22] @ ''id'' @ [CHR 0x22] @ '': 1'' @ [CHR 0x0A] @ ''}'',
           ''  Source Host: unknown / unknown (PID ?)''],
        '''',
        ''---'',
        ''To republish these messages, call again with confirm=true and count=1.'']) \<and>
   (\<exists>pubs. snd (snd (republish_from_error scenario_platform (logged scenario_broker)
                       ''orders_error'' (Some 1) (Some True) None
                       (orders_broker [message_of order_fault_payload (Some order_fault_headers)],
                        []))) =
      Get \<lparr> gr_vhost = None, gr_queue = ''orders_error'', gr_count = 1,
            gr_ackmode = ''ack_requeue_false'', gr_encoding = ''auto'',
            gr_truncate = 50000 \<rparr> # map Publish pubs) \<and>
   queues (snd (republish_from_error scenario_platform scenario_broker ''orders_error'' (Some 1)
                  (Some True) None
                  (orders_broker [message_of order_fault_payload (Some order_fault_headers)])))
       ''orders_error'' = []"
proof -
  let ?m = "message_of order_fault_payload (Some order_fault_headers) :: int PeekedMessage"
  let ?B = "scenario_broker :: (int broker_state, int) broker"
  let ?init = "orders_broker [?m]"
  let ?peek = "\<lparr> gr_vhost = None, gr_queue = ''orders_error'',
                 gr_count = (case Some 1 of None \<Rightarrow> 1 | Some c \<Rightarrow> c),
                 gr_ackmode = ''ack_requeue_true'', gr_encoding = ''auto'',
                 gr_truncate = 50000 \<rparr>"
  let ?text = "join [CHR 0x0A]
          [''Message 1:'',
           ''  Faulted: unknown'',
           ''  Reason: fault'',
           ''  Message Type: App.OrderPlaced'',
           ''  Exception: System.InvalidOperationException - '' @ [CHR 0x22] @ ''bad state'' @
             [CHR 0x22],
           ''  Retry Count: 3'',
           ''  Original Payload: {'' @ [CHR 0x0A] @
             ''  '' @ [CHR 0x22] @ ''id'' @ [CHR 0x22] @ '': 1'' @ [CHR 0x0A] @ ''}'',
           ''  Source Host: unknown / unknown (PID ?)'']"
  have nc: "(None :: bool option) \<noteq> Some True" and yc: "Some True = Some True"
    by simp_all
  have g: "get_messages ?B ?peek ?init = (Inr [?m], ?init)"
    by (simp add: scenario_broker_def orders_broker_def)
  note t = preview_then_commit
             [where P = scenario_platform and B = ?B and errorQueue = "''orders_error''"
                and count = "Some 1" and vhost = None and s = ?init and t = ?init]
  have 1: "snd (republish_from_error scenario_platform (logged ?B) ''orders_error'' (Some 1)
                  None None (?init, [])) = (?init, [Get ?peek])"
    using t [where confirm = None, THEN conjunct1] nc g by simp
  have 2: "snd (republish_from_error scenario_platform ?B ''orders_error'' (Some 1) None None
                  ?init) = ?init"
    using t [where confirm = None, THEN conjunct2, THEN conjunct1] nc by blast
  have f: "\<forall>i < length [?m]. formatFaultMessage scenario_platform ([?m] ! i) i = Inr ([?text] ! i)"
    by (simp add: order_fault_message_text)
  have 3: "fst (republish_from_error scenario_platform ?B ''orders_error'' (Some 1) None None
                  ?init) =
     Inr (join [CHR 0x0A]
          ([''Preview: '' @ show_nat (length [?m]) @ '' message(s) from '' @ [CHR 0x22] @
            ''orders_error'' @ [CHR 0x22] @ '' ready to republish:'' @ [CHR 0x0A]] @
           concat (map (\<lambda>t. [t, '''']) [?text]) @
           [''---'',
            ''To republish these messages, call again with confirm=true and count='' @
            show_nat (length [?m]) @ ''.'']))"
    using t [where confirm = None and messages = "[?m]" and texts = "[?text]",
             THEN conjunct2, THEN conjunct2, THEN conjunct1] nc g f
    by simp
  have 4: "\<exists>pubs. snd (snd (republish_from_error scenario_platform (logged ?B) ''orders_error''
                               (Some 1) (Some True) None (?init, []))) =
      Get \<lparr> gr_vhost = None, gr_queue = ''orders_error'',
            gr_count = (case Some 1 of None \<Rightarrow> 1 | Some c \<Rightarrow> c),
            gr_ackmode = ''ack_requeue_false'', gr_encoding = ''auto'',
            gr_truncate = 50000 \<rparr> # map Publish pubs"
    using t [where confirm = "Some True", THEN conjunct2, THEN conjunct2, THEN conjunct2,
             THEN conjunct1] yc by blast
  have 5: "queues (snd (republish_from_error scenario_platform ?B ''orders_error'' (Some 1)
                          (Some True) None ?init)) ''orders_error'' =
             drop (case Some 1 of None \<Rightarrow> 1 | Some c \<Rightarrow> c) (queues ?init ''orders_error'')"
    using t [where confirm = "Some True", THEN conjunct2, THEN conjunct2, THEN conjunct2,
             THEN conjunct2] yc by blast
  have e5: "queues (snd (republish_from_error scenario_platform ?B ''orders_error'' (Some 1)
                          (Some True) None ?init)) ''orders_error'' = []"
    using 5 by (simp add: orders_broker_def)
  from 1 2 3 4 e5 show ?thesis by simp
qed

theorem preview_count_counterexample:
  "fst (republish_from_error scenario_platform scenario_broker ''orders_error'' (Some 3) None None
          (orders_broker [message_of order_fault_payload (Some order_fault_headers)])) =
     Inr (join [CHR 0x0A]
       [''Preview: 1 message(s) from '' @ [CHR 0x22] @ ''orders_error'' @ [CHR 0x22] @
          '' ready to republish:'' @ [CHR 0x0A],
        join [CHR 0x0A]
          [''Message 1:'',
           ''  Faulted: unknown'',
           ''  Reason: fault'',
           ''  Message Type: App.OrderPlaced'',
           ''  Exception: System.InvalidOperationException - '' @ [CHR 0x22] @ ''bad state'' @
             [CHR 0x22],
           ''  Retry Count: 3'',
           ''  Original Payload: {'' @ [CHR 0x0A] @
             ''  '' @ [CHR 0x22] @ ''id'' @ [CHR 0x22] @ '': 1'' @ [CHR 0x0A] @ ''}'',
           ''  Source Host: unknown / unknown (PID ?)''],
        '''',
        ''---'',
        ''To republish these messages, call again with confirm=true and count=1.''])"
  by (simp add: republish_from_error_def peekMessages_def scenario_broker_def orders_broker_def
      preview_text_def and_then_def instruction_def order_fault_message_text)

section \<open>Limits of the formatter\<close>


























end
